theory Spec2Isabelle
  imports Main
begin

section \<open>Data model (types/poker.ts)\<close>

text \<open>
  The hand engine of \<^verbatim>\<open>frontend/lib/poker-game.ts\<close> as state-passing functions:
  every method of class \<^verbatim>\<open>PokerGame\<close> takes the object and returns its result
  together with the object after the call. Seat indices are \<open>nat\<close>.

  Chip amounts are JavaScript numbers, that is doubles, holding integers. The
  definitions of the first sections compute with exact integers (\<open>int\<close>): this is what
  the engine computes as long as every number involved is an integer of magnitude at
  most \<open>2^53\<close>, where no double operation rounds. Section
  \<open>The engine's double arithmetic\<close> writes the rounding out (\<open>toDouble\<close>) for
  \<^verbatim>\<open>startNewHand\<close> and the betting actions; \<open>freshHand_dbl_exact\<close> and
  \<open>run_dbl_exact\<close> prove that the two agree on that range.
\<close>

datatype GameState = Preflop | Flop | Turn | River | Showdown

text \<open>
  A slot of a card array. \<^verbatim>\<open>Array.prototype.pop\<close> on an empty array returns
  \<^verbatim>\<open>undefined\<close>, and the source pushes the popped value unchecked
  (\<^verbatim>\<open>this.deck.pop()!\<close>), so a slot is either a card code or \<open>None\<close>
  (\<^verbatim>\<open>undefined\<close>).
\<close>

type_synonym card = "string option"

record Player =
  player_id :: nat
  name :: string
  stack :: int
  holeCards :: "card list"
  p_currentBet :: int
  hasActed :: bool
  isFolded :: bool
  isAllIn :: bool

record PokerGame =
  players :: "Player list"
  dealerPosition :: nat
  smallBlindPosition :: nat
  bigBlindPosition :: nat
  currentPlayerIndex :: nat
  smallBlind :: int
  bigBlind :: int
  pot :: int
  communityCards :: "card list"
  currentBet :: int
  gameState :: GameState
  stackSize :: int
  deck :: "string list"
  handId :: string

record HandResult =
  res_id :: string
  res_stackSize :: int
  res_dealerPosition :: nat
  res_smallBlindPosition :: nat
  res_bigBlindPosition :: nat
  playerHands :: string
  actionSequence :: string
  winnings :: string
  totalPot :: int
  summary :: string

text \<open>The only exception the engine can raise: a property read on \<^verbatim>\<open>undefined\<close>.\<close>

datatype js_error = TypeError

section \<open>Rendering numbers and joining strings\<close>

fun show_nat :: "nat \<Rightarrow> string" where
  "show_nat n =
     (if n < 10 then [char_of (48 + n)]
      else show_nat (n div 10) @ [char_of (48 + n mod 10)])"

declare show_nat.simps [simp del]

definition show_int :: "int \<Rightarrow> string" where
  "show_int i = (if i < 0 then ''-'' @ show_nat (nat (- i)) else show_nat (nat i))"

text \<open>\<^verbatim>\<open>xs.join(sep)\<close>; an \<^verbatim>\<open>undefined\<close> element renders as the empty string.\<close>

fun join :: "string \<Rightarrow> string list \<Rightarrow> string" where
  "join sep [] = []"
| "join sep [x] = x"
| "join sep (x # y # ys) = x @ sep @ join sep (y # ys)"

definition card_text :: "card \<Rightarrow> string" where
  "card_text c = (case c of None \<Rightarrow> [] | Some s \<Rightarrow> s)"

definition join_cards :: "card list \<Rightarrow> string" where
  "join_cards cs = join [] (map card_text cs)"

section \<open>Construction and the deck\<close>

text \<open>\<^verbatim>\<open>initializePlayers\<close>: six seats, ids 1 to 6, each with the starting stack.\<close>

definition initializePlayers :: "int \<Rightarrow> Player list" where
  "initializePlayers S =
     map (\<lambda>i. \<lparr> player_id = i + 1, name = ''Player '' @ show_nat (i + 1), stack = S,
                holeCards = [], p_currentBet = 0, hasActed = False, isFolded = False,
                isAllIn = False \<rparr>) [0..<6]"

text \<open>\<^verbatim>\<open>new PokerGame(stackSize)\<close> with no previous game: the field initialisers.\<close>

definition PokerGame_new :: "int \<Rightarrow> PokerGame" where
  "PokerGame_new S =
     \<lparr> players = initializePlayers S, dealerPosition = 0, smallBlindPosition = 1,
       bigBlindPosition = 2, currentPlayerIndex = 3, smallBlind = 20, bigBlind = 40,
       pot = 0, communityCards = [], currentBet = 0, gameState = Preflop,
       stackSize = S, deck = [], handId = [] \<rparr>"

definition suits :: "string list" where
  "suits = [''h'', ''d'', ''c'', ''s'']"

text \<open>The thirteen one-character rank codes, \<^verbatim>\<open>"2"\<close> up to \<^verbatim>\<open>"A"\<close>, in the source's order.\<close>

definition ranks :: "string list" where
  "ranks = map (\<lambda>c. [c]) ''23456789TJQKA''"

text \<open>
  \<^verbatim>\<open>shuffleDeck\<close>: the loop \<^verbatim>\<open>for (i = n - 1; i > 0; i--)\<close> swapping slots
  \<open>i\<close> and \<open>j\<close>. The random source is a parameter: \<open>rnd i\<close> stands for the value
  drawn at index \<open>i\<close>, and \<^verbatim>\<open>Math.floor(Math.random() * (i + 1))\<close> lies in
  \<open>0..i\<close>, which \<open>mod (i + 1)\<close> expresses.
\<close>

fun shuffleLoop :: "(nat \<Rightarrow> nat) \<Rightarrow> nat \<Rightarrow> 'a list \<Rightarrow> 'a list" where
  "shuffleLoop rnd 0 xs = xs"
| "shuffleLoop rnd (Suc i) xs =
     (let j = rnd (Suc i) mod (Suc i + 1)
      in shuffleLoop rnd i (xs[Suc i := xs ! j, j := xs ! Suc i]))"

definition shuffleDeck :: "(nat \<Rightarrow> nat) \<Rightarrow> 'a list \<Rightarrow> 'a list" where
  "shuffleDeck rnd d = shuffleLoop rnd (length d - 1) d"

definition createDeck :: "(nat \<Rightarrow> nat) \<Rightarrow> string list" where
  "createDeck rnd =
     shuffleDeck rnd (concat (map (\<lambda>suit. map (\<lambda>rank. rank @ suit) ranks) suits))"

text \<open>\<^verbatim>\<open>deck.pop()\<close>: removes and returns the last element, \<^verbatim>\<open>undefined\<close> when empty.\<close>

definition pop :: "string list \<Rightarrow> card \<times> string list" where
  "pop d = (if d = [] then (None, []) else (Some (last d), butlast d))"

section \<open>Starting a hand\<close>

definition resetPlayer :: "Player \<Rightarrow> Player" where
  "resetPlayer p =
     p\<lparr> holeCards := [], p_currentBet := 0, hasActed := False, isFolded := False,
        isAllIn := False \<rparr>"

text \<open>
  \<^verbatim>\<open>this.players[j].holeCards.push(this.deck.pop()!)\<close>. The table always has six
  seats (\<^verbatim>\<open>initializePlayers\<close> builds six and nothing resizes the array), and every
  index the engine computes is taken modulo 6, so the reads \<open>players g ! j\<close> below stay
  in range; \<open>reachable_six_seats\<close> proves it for every state of a hand.
\<close>

definition dealHoleCard :: "nat \<Rightarrow> PokerGame \<Rightarrow> PokerGame" where
  "dealHoleCard j g =
     (let (c, d) = pop (deck g);
          p = players g ! j
      in g\<lparr> players := (players g)[j := p\<lparr> holeCards := holeCards p @ [c] \<rparr>],
            deck := d \<rparr>)"

definition dealHoleCards :: "PokerGame \<Rightarrow> PokerGame" where
  "dealHoleCards g = fold (\<lambda>i. fold dealHoleCard [0..<6]) [0..<2] g"

text \<open>
  The blinds, in exact integers; \<open>postBlinds_dbl\<close> below rounds as the doubles do, and
  the two agree while the stacks are safe integers (\<open>postBlinds_dbl_exact\<close>).
\<close>

definition postBlinds :: "PokerGame \<Rightarrow> PokerGame" where
  "postBlinds g =
     (let sb = smallBlindPosition g;
          ps1 = (players g)[sb := (players g ! sb)\<lparr> stack := stack (players g ! sb) - smallBlind g \<rparr>];
          ps2 = ps1[sb := (ps1 ! sb)\<lparr> p_currentBet := smallBlind g \<rparr>];
          bb = bigBlindPosition g;
          ps3 = ps2[bb := (ps2 ! bb)\<lparr> stack := stack (ps2 ! bb) - bigBlind g \<rparr>];
          ps4 = ps3[bb := (ps3 ! bb)\<lparr> p_currentBet := bigBlind g \<rparr>]
      in g\<lparr> players := ps4, pot := smallBlind g + bigBlind g \<rparr>)"

text \<open>
  \<^verbatim>\<open>startNewHand\<close>. The shuffle's random source \<open>rnd\<close> and the generated hand
  id \<open>hid\<close> (\<^verbatim>\<open>generateHandId\<close>, built from \<^verbatim>\<open>Math.random\<close>) are parameters.
\<close>

definition startNewHand :: "(nat \<Rightarrow> nat) \<Rightarrow> string \<Rightarrow> PokerGame \<Rightarrow> PokerGame" where
  "startNewHand rnd hid g =
     (let g1 = g\<lparr> handId := hid, deck := createDeck rnd, communityCards := [], pot := 0,
                 currentBet := bigBlind g, gameState := Preflop \<rparr>;
          g2 = g1\<lparr> players := map resetPlayer (players g1) \<rparr>;
          g3 = dealHoleCards g2;
          g4 = postBlinds g3
      in g4\<lparr> currentPlayerIndex := (bigBlindPosition g4 + 1) mod 6 \<rparr>)"

section \<open>Queries\<close>

definition isHandComplete :: "PokerGame \<Rightarrow> bool" where
  "isHandComplete g =
     (length (filter (\<lambda>p. \<not> isFolded p) (players g)) \<le> 1 \<or> gameState g = Showdown)"

text \<open>
  \<^verbatim>\<open>getCurrentPlayer\<close>: \<^verbatim>\<open>null\<close> once the hand is complete. An index outside the
  array reads \<^verbatim>\<open>undefined\<close>, which every caller tests with \<^verbatim>\<open>!player\<close> just like
  \<^verbatim>\<open>null\<close>; both are \<open>None\<close>.
\<close>

definition getCurrentPlayer :: "PokerGame \<Rightarrow> Player option" where
  "getCurrentPlayer g =
     (if isHandComplete g then None
      else if currentPlayerIndex g < length (players g)
           then Some (players g ! currentPlayerIndex g) else None)"

text \<open>
  \<^verbatim>\<open>getValidActions\<close>, returning the list and the object after the call (the
  method assigns nothing).
\<close>

definition getValidActions :: "PokerGame \<Rightarrow> string list \<times> PokerGame" where
  "getValidActions g =
     (case getCurrentPlayer g of
        None \<Rightarrow> ([], g)
      | Some player \<Rightarrow>
          if isFolded player \<or> isAllIn player then ([], g)
          else
            let actions = [''fold''];
                callAmount = currentBet g - p_currentBet player;
                actions = (if callAmount = 0 then actions @ [''check'']
                           else if callAmount < stack player then actions @ [''call'']
                           else actions);
                actions = (if stack player > callAmount
                           then (if currentBet g = 0 then actions @ [''bet'']
                                 else actions @ [''raise''])
                           else actions);
                actions = (if stack player > 0 then actions @ [''allin''] else actions)
            in (actions, g))"

definition shouldDealCommunityCards :: "PokerGame \<Rightarrow> bool" where
  "shouldDealCommunityCards g =
     ((gameState g = Flop \<and> length (communityCards g) = 0) \<or>
      (gameState g = Turn \<and> length (communityCards g) = 3) \<or>
      (gameState g = River \<and> length (communityCards g) = 4))"

section \<open>Turn rotation and street progression\<close>

definition isBettingRoundComplete :: "PokerGame \<Rightarrow> bool" where
  "isBettingRoundComplete g =
     (let activePlayers = filter (\<lambda>p. \<not> isFolded p \<and> \<not> isAllIn p) (players g)
      in list_all (\<lambda>p. hasActed p \<and> p_currentBet p = currentBet g) activePlayers
         \<or> length activePlayers \<le> 1)"

definition seatBusy :: "PokerGame \<Rightarrow> bool" where
  "seatBusy g =
     (isFolded (players g ! currentPlayerIndex g) \<or> isAllIn (players g ! currentPlayerIndex g))"

text \<open>
  The \<^verbatim>\<open>while\<close> loop at the end of \<^verbatim>\<open>moveToNextBettingRound\<close>; \<open>attempts\<close> is
  the loop counter, and \<^verbatim>\<open>if (attempts > 6) return\<close> leaves the loop.
\<close>

function seekFirstToAct :: "nat \<Rightarrow> PokerGame \<Rightarrow> PokerGame" where
  "seekFirstToAct attempts g =
     (if seatBusy g then
        (let g' = g\<lparr> currentPlayerIndex := (currentPlayerIndex g + 1) mod 6 \<rparr>;
             attempts' = attempts + 1
         in if attempts' > 6 then g' else seekFirstToAct attempts' g')
      else g)"
  by pat_completeness auto
termination
  by (relation "measure (\<lambda>(attempts, g). 7 - attempts)") auto

declare seekFirstToAct.simps [simp del]

definition nextStreet :: "GameState \<Rightarrow> GameState" where
  "nextStreet s =
     (case s of Preflop \<Rightarrow> Flop | Flop \<Rightarrow> Turn | Turn \<Rightarrow> River | River \<Rightarrow> Showdown
      | Showdown \<Rightarrow> Showdown)"

definition moveToNextBettingRound :: "PokerGame \<Rightarrow> PokerGame" where
  "moveToNextBettingRound g =
     (let g1 = g\<lparr> players := map (\<lambda>p. p\<lparr> hasActed := False, p_currentBet := 0 \<rparr>) (players g) \<rparr>;
          g2 = g1\<lparr> currentBet := 0 \<rparr>;
          g3 = g2\<lparr> gameState := nextStreet (gameState g2) \<rparr>;
          activePlayers = filter (\<lambda>p. \<not> isFolded p) (players g3);
          allAllIn = (list_all isAllIn activePlayers \<or> length activePlayers \<le> 1)
      in if allAllIn then g3\<lparr> gameState := Showdown \<rparr>
         else seekFirstToAct 0 (g3\<lparr> currentPlayerIndex := (dealerPosition g3 + 1) mod 6 \<rparr>))"

text \<open>The \<^verbatim>\<open>do ... while\<close> loop of \<^verbatim>\<open>moveToNextPlayer\<close>.\<close>

function rotateTurn :: "nat \<Rightarrow> PokerGame \<Rightarrow> PokerGame" where
  "rotateTurn attempts g =
     (let g' = g\<lparr> currentPlayerIndex := (currentPlayerIndex g + 1) mod 6 \<rparr>;
          attempts' = attempts + 1
      in if attempts' > 6 then g'
         else if seatBusy g' then rotateTurn attempts' g' else g')"
  by pat_completeness auto
termination
  by (relation "measure (\<lambda>(attempts, g). 7 - attempts)") auto

declare rotateTurn.simps [simp del]

definition moveToNextPlayer :: "PokerGame \<Rightarrow> PokerGame" where
  "moveToNextPlayer g =
     (if isHandComplete g then g
      else if isBettingRoundComplete g then moveToNextBettingRound g
      else rotateTurn 0 g)"

section \<open>Actions\<close>

text \<open>
  Every action method returns its narrative string and the object after the call. A
  rejected action returns the empty string (\<^verbatim>\<open>return ""\<close>) before assigning
  anything. \<^verbatim>\<open>player\<close> is a reference into \<^verbatim>\<open>this.players\<close>, so its updates are
  written back at \<open>currentPlayerIndex\<close>.
\<close>

text \<open>
  \<^verbatim>\<open>this.players.forEach((p, index) => { if (index !== this.currentPlayerIndex &&
  !p.isFolded) p.hasActed = false })\<close>; \<open>i\<close> is the index of the head of the list.
\<close>

fun resetOthers :: "nat \<Rightarrow> nat \<Rightarrow> Player list \<Rightarrow> Player list" where
  "resetOthers cpi i [] = []"
| "resetOthers cpi i (p # ps) =
     (if i \<noteq> cpi \<and> \<not> isFolded p then p\<lparr> hasActed := False \<rparr> else p)
       # resetOthers cpi (Suc i) ps"

definition markAllIn :: "Player \<Rightarrow> Player" where
  "markAllIn p = (if stack p = 0 then p\<lparr> isAllIn := True \<rparr> else p)"

definition fold_action :: "PokerGame \<Rightarrow> string \<times> PokerGame" where
  "fold_action g =
     (case getCurrentPlayer g of
        None \<Rightarrow> ([], g)
      | Some player \<Rightarrow>
          let player' = player\<lparr> isFolded := True, hasActed := True \<rparr>;
              g1 = g\<lparr> players := (players g)[currentPlayerIndex g := player'] \<rparr>;
              result = ''Player '' @ show_nat (player_id player') @ '' folds''
          in (result, moveToNextPlayer g1))"

definition check :: "PokerGame \<Rightarrow> string \<times> PokerGame" where
  "check g =
     (case getCurrentPlayer g of
        None \<Rightarrow> ([], g)
      | Some player \<Rightarrow>
          if currentBet g > p_currentBet player then ([], g)
          else
            let player' = player\<lparr> hasActed := True \<rparr>;
                g1 = g\<lparr> players := (players g)[currentPlayerIndex g := player'] \<rparr>;
                result = ''Player '' @ show_nat (player_id player') @ '' checks''
            in (result, moveToNextPlayer g1))"

definition call :: "PokerGame \<Rightarrow> string \<times> PokerGame" where
  "call g =
     (case getCurrentPlayer g of
        None \<Rightarrow> ([], g)
      | Some player \<Rightarrow>
          let callAmount = currentBet g - p_currentBet player;
              actualCall = min callAmount (stack player);
              player' = markAllIn (player\<lparr> stack := stack player - actualCall,
                                           p_currentBet := p_currentBet player + actualCall,
                                           hasActed := True \<rparr>);
              g1 = g\<lparr> players := (players g)[currentPlayerIndex g := player'],
                      pot := pot g + actualCall \<rparr>;
              result = ''Player '' @ show_nat (player_id player') @ '' calls '' @ show_int actualCall
          in (result, moveToNextPlayer g1))"

definition bet :: "int \<Rightarrow> PokerGame \<Rightarrow> string \<times> PokerGame" where
  "bet amount g =
     (case getCurrentPlayer g of
        None \<Rightarrow> ([], g)
      | Some player \<Rightarrow>
          if currentBet g > 0 then ([], g)
          else
            let betAmount = min amount (stack player);
                player' = markAllIn (player\<lparr> stack := stack player - betAmount,
                                             p_currentBet := betAmount,
                                             hasActed := True \<rparr>);
                g1 = g\<lparr> players := (players g)[currentPlayerIndex g := player'],
                        currentBet := betAmount, pot := pot g + betAmount \<rparr>;
                g2 = g1\<lparr> players := resetOthers (currentPlayerIndex g1) 0 (players g1) \<rparr>;
                result = ''Player '' @ show_nat (player_id player') @ '' bets '' @ show_int betAmount
            in (result, moveToNextPlayer g2))"

definition raise :: "int \<Rightarrow> PokerGame \<Rightarrow> string \<times> PokerGame" where
  "raise amount g =
     (case getCurrentPlayer g of
        None \<Rightarrow> ([], g)
      | Some player \<Rightarrow>
          if currentBet g = 0 then ([], g)
          else
            let callAmount = currentBet g - p_currentBet player;
                totalAmount = min (callAmount + amount) (stack player);
                player' = markAllIn (player\<lparr> stack := stack player - totalAmount,
                                             p_currentBet := p_currentBet player + totalAmount,
                                             hasActed := True \<rparr>);
                g1 = g\<lparr> players := (players g)[currentPlayerIndex g := player'],
                        currentBet := p_currentBet player', pot := pot g + totalAmount \<rparr>;
                g2 = g1\<lparr> players := resetOthers (currentPlayerIndex g1) 0 (players g1) \<rparr>;
                result = ''Player '' @ show_nat (player_id player') @ '' raises to ''
                           @ show_int (p_currentBet player')
            in (result, moveToNextPlayer g2))"

definition allIn :: "PokerGame \<Rightarrow> string \<times> PokerGame" where
  "allIn g =
     (case getCurrentPlayer g of
        None \<Rightarrow> ([], g)
      | Some player \<Rightarrow>
          if stack player = 0 then ([], g)
          else
            let allInAmount = stack player;
                player' = player\<lparr> stack := 0,
                                  p_currentBet := p_currentBet player + allInAmount,
                                  hasActed := True, isAllIn := True \<rparr>;
                g1 = g\<lparr> players := (players g)[currentPlayerIndex g := player'],
                        pot := pot g + allInAmount \<rparr>;
                g2 = (if p_currentBet player' > currentBet g1
                      then g1\<lparr> currentBet := p_currentBet player',
                               players := resetOthers (currentPlayerIndex g1) 0 (players g1) \<rparr>
                      else g1);
                result = ''Player '' @ show_nat (player_id player') @ '' goes all-in with ''
                           @ show_int allInAmount
            in (result, moveToNextPlayer g2))"

section \<open>Community cards and settlement\<close>

text \<open>A burn is \<^verbatim>\<open>this.deck.pop()\<close> with the result dropped.\<close>

definition burn :: "PokerGame \<Rightarrow> PokerGame" where
  "burn g = g\<lparr> deck := snd (pop (deck g)) \<rparr>"

text \<open>\<^verbatim>\<open>this.communityCards.push(this.deck.pop()!)\<close>\<close>

definition revealOne :: "PokerGame \<Rightarrow> PokerGame" where
  "revealOne g =
     (let (c, d) = pop (deck g)
      in g\<lparr> communityCards := communityCards g @ [c], deck := d \<rparr>)"

text \<open>
  \<^verbatim>\<open>`${this.communityCards[i]}`\<close>: an index past the end reads \<^verbatim>\<open>undefined\<close>, and a
  template literal renders \<^verbatim>\<open>undefined\<close> as the word itself.
\<close>

definition nth_card :: "card list \<Rightarrow> nat \<Rightarrow> card" where
  "nth_card cs i = (if i < length cs then cs ! i else None)"

definition template_text :: "card \<Rightarrow> string" where
  "template_text c = (case c of None \<Rightarrow> ''undefined'' | Some s \<Rightarrow> s)"

definition dealCommunityCards :: "PokerGame \<Rightarrow> string option \<times> PokerGame" where
  "dealCommunityCards g =
     (if gameState g = Flop \<and> length (communityCards g) = 0 then
        (let g' = fold (\<lambda>i. revealOne) [0..<3] (burn g)
         in (Some (''Flop cards dealt: '' @ join_cards (communityCards g')), g'))
      else if gameState g = Turn \<and> length (communityCards g) = 3 then
        (let g' = revealOne (burn g)
         in (Some (''Turn card dealt: '' @ template_text (nth_card (communityCards g') 3)), g'))
      else if gameState g = River \<and> length (communityCards g) = 4 then
        (let g' = revealOne (burn g)
         in (Some (''River card dealt: '' @ template_text (nth_card (communityCards g') 4)), g'))
      else (None, g))"

text \<open>
  \<^verbatim>\<open>this.players.filter((p) => !p.isFolded)\<close> keeps references to the seats; the
  model keeps their indices, so that the update of \<^verbatim>\<open>activePlayers[0]\<close> lands in
  \<^verbatim>\<open>this.players\<close>.
\<close>

definition activeIndices :: "Player list \<Rightarrow> nat list" where
  "activeIndices ps = filter (\<lambda>i. \<not> isFolded (ps ! i)) [0..<length ps]"

fun handLines :: "nat \<Rightarrow> Player list \<Rightarrow> string list" where
  "handLines i [] = []"
| "handLines i (p # ps) =
     (''Player '' @ show_nat (i + 1) @ '': '' @ join_cards (holeCards p)) # handLines (Suc i) ps"

fun winningLines :: "int \<Rightarrow> nat \<Rightarrow> Player list \<Rightarrow> string list" where
  "winningLines S i [] = []"
| "winningLines S i (p # ps) =
     (let change = stack p - S
      in ''Player '' @ show_nat (i + 1) @ '': '' @ (if change \<ge> 0 then ''+'' else [])
           @ show_int change) # winningLines S (Suc i) ps"

text \<open>
  \<^verbatim>\<open>getHandResult\<close>. With no un-folded seat \<^verbatim>\<open>activePlayers[0]\<close> is
  \<^verbatim>\<open>undefined\<close> and \<^verbatim>\<open>winner.stack += this.pot\<close> throws.
\<close>

definition getHandResult :: "PokerGame \<Rightarrow> js_error + (HandResult \<times> PokerGame)" where
  "getHandResult g =
     (case activeIndices (players g) of
        [] \<Rightarrow> Inl TypeError
      | w # _ \<Rightarrow>
          let winner = players g ! w;
              g1 = g\<lparr> players := (players g)[w := winner\<lparr> stack := stack winner + pot g \<rparr>] \<rparr>;
              hands = join ''; '' (handLines 0 (players g1));
              actions = ''f.f.f.r300.c.f.3hKdQs.x.b100.c.Ac.x.x.Th.b80.r160.c'';
              wins = join ''; '' (winningLines (stackSize g1) 0 (players g1))
          in Inr (\<lparr> res_id = handId g1, res_stackSize = stackSize g1,
                    res_dealerPosition = dealerPosition g1,
                    res_smallBlindPosition = smallBlindPosition g1,
                    res_bigBlindPosition = bigBlindPosition g1,
                    playerHands = hands, actionSequence = actions, winnings = wins,
                    totalPot = pot g1,
                    summary = ''Hand #'' @ handId g1 @ '' ended'' \<rparr>, g1))"

section \<open>Runs of a hand\<close>

text \<open>
  What a caller can do to a hand before it is settled: one of the six actions, or
  \<^verbatim>\<open>dealCommunityCards\<close>. Street transitions happen inside the actions
  (\<^verbatim>\<open>moveToNextPlayer\<close>).
\<close>

datatype Event = Fold | Check | Call | Bet int | Raise int | AllIn | DealCommunityCards

fun perform :: "Event \<Rightarrow> PokerGame \<Rightarrow> string option \<times> PokerGame" where
  "perform Fold g = (let (r, g') = fold_action g in (Some r, g'))"
| "perform Check g = (let (r, g') = check g in (Some r, g'))"
| "perform Call g = (let (r, g') = call g in (Some r, g'))"
| "perform (Bet n) g = (let (r, g') = bet n g in (Some r, g'))"
| "perform (Raise n) g = (let (r, g') = raise n g in (Some r, g'))"
| "perform AllIn g = (let (r, g') = allIn g in (Some r, g'))"
| "perform DealCommunityCards g = dealCommunityCards g"

definition step :: "Event \<Rightarrow> PokerGame \<Rightarrow> PokerGame" where
  "step e g = snd (perform e g)"

definition run :: "Event list \<Rightarrow> PokerGame \<Rightarrow> PokerGame" where
  "run es g = fold step es g"

text \<open>A fresh hand: a new six-seat game with starting stack \<open>S\<close>, then \<^verbatim>\<open>startNewHand\<close>.\<close>

definition freshHand :: "int \<Rightarrow> (nat \<Rightarrow> nat) \<Rightarrow> string \<Rightarrow> PokerGame" where
  "freshHand S rnd hid = startNewHand rnd hid (PokerGame_new S)"

section \<open>Vocabulary of the properties\<close>

text \<open>All the chips on the table: the pot and the six stacks.\<close>

definition totalChips :: "PokerGame \<Rightarrow> int" where
  "totalChips g = pot g + sum_list (map stack (players g))"

text \<open>No slot of a card array holds an \<^verbatim>\<open>undefined\<close> popped from an empty deck.\<close>

definition cardsDefined :: "card list \<Rightarrow> bool" where
  "cardsDefined cs = list_all (\<lambda>c. c \<noteq> None) cs"

definition allCardsDefined :: "PokerGame \<Rightarrow> bool" where
  "allCardsDefined g =
     (cardsDefined (communityCards g) \<and> list_all cardsDefined (map holeCards (players g)))"

text \<open>
  The board and the deck move together: with 0, 3, 4 or 5 community cards the deck
  holds 40, 36, 34 or 32 cards.
\<close>

definition deckInStep :: "PokerGame \<Rightarrow> bool" where
  "deckInStep g =
     ((length (communityCards g), length (deck g)) \<in> set [(0, 40), (3, 36), (4, 34), (5, 32)])"

text \<open>
  What dealing \<open>n\<close> hole cards may change: only the seats' hole cards and the deck,
  which loses \<open>n\<close> cards; a dealt card is defined as long as the deck has enough cards.
\<close>

definition dealtShape :: "PokerGame \<Rightarrow> nat \<Rightarrow> PokerGame \<Rightarrow> bool" where
  "dealtShape g n g' =
     (\<exists>ps d. g' = g\<lparr> players := ps, deck := d \<rparr>
        \<and> length ps = length (players g)
        \<and> map stack ps = map stack (players g)
        \<and> map isFolded ps = map isFolded (players g)
        \<and> length d = length (deck g) - n
        \<and> (n \<le> length (deck g) \<and> list_all (cardsDefined \<circ> holeCards) (players g)
             \<longrightarrow> list_all (cardsDefined \<circ> holeCards) ps))"

text \<open>
  A seat at the start of a hand: id \<open>i\<close>, stack \<open>s\<close>, street bet \<open>b\<close>, two hole cards,
  all flags clear.
\<close>

definition seat :: "nat \<Rightarrow> int \<Rightarrow> int \<Rightarrow> string \<Rightarrow> string \<Rightarrow> Player" where
  "seat i s b c c' =
     \<lparr> player_id = i, name = ''Player '' @ show_nat i, stack = s, holeCards = [Some c, Some c'],
       p_currentBet = b, hasActed = False, isFolded = False, isAllIn = False \<rparr>"

text \<open>A sample hand for concrete runs: every shuffle draw is 0 and the hand id is empty.\<close>

definition sampleHand :: "int \<Rightarrow> PokerGame" where
  "sampleHand S = freshHand S (\<lambda>i. 0) []"

text \<open>
  The rejection conditions the claims list: no current actor (the hand is complete),
  a check facing a larger bet, a bet when there is a bet already, a raise when there is
  none, an all-in with an empty stack. Fold and call have no condition of their own.
\<close>

definition rejected :: "Event \<Rightarrow> PokerGame \<Rightarrow> bool" where
  "rejected e g =
     (e \<noteq> DealCommunityCards \<and>
      (case getCurrentPlayer g of
         None \<Rightarrow> True
       | Some actor \<Rightarrow>
           (case e of
              Check \<Rightarrow> currentBet g > p_currentBet actor
            | Bet n \<Rightarrow> currentBet g > 0
            | Raise n \<Rightarrow> currentBet g = 0
            | AllIn \<Rightarrow> stack actor = 0
            | _ \<Rightarrow> False)))"

text \<open>
  The short-circuit condition of a street transition: every un-folded seat is all-in,
  or at most one seat is un-folded.
\<close>

definition shortCircuit :: "PokerGame \<Rightarrow> bool" where
  "shortCircuit g =
     (let activePlayers = filter (\<lambda>p. \<not> isFolded p) (players g)
      in list_all isAllIn activePlayers \<or> length activePlayers \<le> 1)"

text \<open>
  The state \<^verbatim>\<open>allIn()\<close> has built when it calls \<^verbatim>\<open>moveToNextPlayer()\<close>: the
  actor's stack committed, and \<open>currentBet\<close> raised with the other seats' \<open>hasActed\<close>
  reset if the commitment is a raise.
\<close>

definition allInCommitted :: "PokerGame \<Rightarrow> PokerGame" where
  "allInCommitted g =
     (let player = players g ! currentPlayerIndex g;
          allInAmount = stack player;
          player' = player\<lparr> stack := 0,
                            p_currentBet := p_currentBet player + allInAmount,
                            hasActed := True, isAllIn := True \<rparr>;
          g1 = g\<lparr> players := (players g)[currentPlayerIndex g := player'],
                  pot := pot g + allInAmount \<rparr>
      in if p_currentBet player' > currentBet g1
         then g1\<lparr> currentBet := p_currentBet player',
                  players := resetOthers (currentPlayerIndex g1) 0 (players g1) \<rparr>
         else g1)"

text \<open>
  A state right before a street transition: four folds, the small blind all-in, the
  flop dealt, and the big blind's all-in committed.
\<close>

definition beforeShowdown :: "PokerGame" where
  "beforeShowdown =
     allInCommitted (run [Fold, Fold, Fold, Fold, AllIn, DealCommunityCards] (sampleHand 10000))"

section \<open>The engine's double arithmetic\<close>

text \<open>
  A JavaScript number is an IEEE-754 double: 53 bits of mantissa, round to nearest, ties
  to the even mantissa. Sums and differences of integer-valued doubles are the exact
  integer result rounded that way. \<open>toDouble x\<close> is the double nearest to the integer
  \<open>x\<close>: \<open>x\<close> itself up to magnitude \<open>2^53\<close>, and beyond that the nearest multiple of
  \<open>q = 2 ^ (bitlen \<bar>x\<bar> - 53)\<close>, the spacing of the doubles around \<open>x\<close>. (Overflow to
  infinity, beyond \<open>2^1024\<close>, is left out.)
\<close>

function bitlen :: "int \<Rightarrow> nat" where
  "bitlen n = (if n \<le> 0 then 0 else Suc (bitlen (n div 2)))"
  by pat_completeness auto
termination
  by (relation "measure nat") auto

declare bitlen.simps [simp del]

definition toDouble :: "int \<Rightarrow> int" where
  "toDouble x =
     (if \<bar>x\<bar> \<le> 2 ^ 53 then x
      else
        let q = 2 ^ (bitlen \<bar>x\<bar> - 53);
            lo = (x div q) * q;
            r = x - lo
        in if 2 * r < q then lo
           else if q < 2 * r then lo + q
           else if even (x div q) then lo else lo + q)"

text \<open>A safe integer: no double operation with this exact result rounds.\<close>

definition exact :: "int \<Rightarrow> bool" where
  "exact x = (\<bar>x\<bar> \<le> 2 ^ 53)"

text \<open>
  \<^verbatim>\<open>startNewHand\<close> and the four betting actions once more, with every subtraction and
  addition of the source rounded. \<^verbatim>\<open>Math.min\<close>, comparisons and plain assignments do
  not round; fold, check and the turn rotation do no chip arithmetic.
\<close>

definition postBlinds_dbl :: "PokerGame \<Rightarrow> PokerGame" where
  "postBlinds_dbl g =
     (let sb = smallBlindPosition g;
          ps1 = (players g)[sb := (players g ! sb)
                   \<lparr> stack := toDouble (stack (players g ! sb) - smallBlind g) \<rparr>];
          ps2 = ps1[sb := (ps1 ! sb)\<lparr> p_currentBet := smallBlind g \<rparr>];
          bb = bigBlindPosition g;
          ps3 = ps2[bb := (ps2 ! bb)\<lparr> stack := toDouble (stack (ps2 ! bb) - bigBlind g) \<rparr>];
          ps4 = ps3[bb := (ps3 ! bb)\<lparr> p_currentBet := bigBlind g \<rparr>]
      in g\<lparr> players := ps4, pot := toDouble (smallBlind g + bigBlind g) \<rparr>)"

definition startNewHand_dbl :: "(nat \<Rightarrow> nat) \<Rightarrow> string \<Rightarrow> PokerGame \<Rightarrow> PokerGame" where
  "startNewHand_dbl rnd hid g =
     (let g1 = g\<lparr> handId := hid, deck := createDeck rnd, communityCards := [], pot := 0,
                 currentBet := bigBlind g, gameState := Preflop \<rparr>;
          g2 = g1\<lparr> players := map resetPlayer (players g1) \<rparr>;
          g3 = dealHoleCards g2;
          g4 = postBlinds_dbl g3
      in g4\<lparr> currentPlayerIndex := (bigBlindPosition g4 + 1) mod 6 \<rparr>)"

definition freshHand_dbl :: "int \<Rightarrow> (nat \<Rightarrow> nat) \<Rightarrow> string \<Rightarrow> PokerGame" where
  "freshHand_dbl S rnd hid = startNewHand_dbl rnd hid (PokerGame_new S)"

definition call_dbl :: "PokerGame \<Rightarrow> string \<times> PokerGame" where
  "call_dbl g =
     (case getCurrentPlayer g of
        None \<Rightarrow> ([], g)
      | Some player \<Rightarrow>
          let callAmount = toDouble (currentBet g - p_currentBet player);
              actualCall = min callAmount (stack player);
              player' = markAllIn (player\<lparr> stack := toDouble (stack player - actualCall),
                                           p_currentBet := toDouble (p_currentBet player + actualCall),
                                           hasActed := True \<rparr>);
              g1 = g\<lparr> players := (players g)[currentPlayerIndex g := player'],
                      pot := toDouble (pot g + actualCall) \<rparr>;
              result = ''Player '' @ show_nat (player_id player') @ '' calls '' @ show_int actualCall
          in (result, moveToNextPlayer g1))"

definition bet_dbl :: "int \<Rightarrow> PokerGame \<Rightarrow> string \<times> PokerGame" where
  "bet_dbl amount g =
     (case getCurrentPlayer g of
        None \<Rightarrow> ([], g)
      | Some player \<Rightarrow>
          if currentBet g > 0 then ([], g)
          else
            let betAmount = min amount (stack player);
                player' = markAllIn (player\<lparr> stack := toDouble (stack player - betAmount),
                                             p_currentBet := betAmount,
                                             hasActed := True \<rparr>);
                g1 = g\<lparr> players := (players g)[currentPlayerIndex g := player'],
                        currentBet := betAmount, pot := toDouble (pot g + betAmount) \<rparr>;
                g2 = g1\<lparr> players := resetOthers (currentPlayerIndex g1) 0 (players g1) \<rparr>;
                result = ''Player '' @ show_nat (player_id player') @ '' bets '' @ show_int betAmount
            in (result, moveToNextPlayer g2))"

definition raise_dbl :: "int \<Rightarrow> PokerGame \<Rightarrow> string \<times> PokerGame" where
  "raise_dbl amount g =
     (case getCurrentPlayer g of
        None \<Rightarrow> ([], g)
      | Some player \<Rightarrow>
          if currentBet g = 0 then ([], g)
          else
            let callAmount = toDouble (currentBet g - p_currentBet player);
                totalAmount = min (toDouble (callAmount + amount)) (stack player);
                player' = markAllIn (player\<lparr> stack := toDouble (stack player - totalAmount),
                                             p_currentBet := toDouble (p_currentBet player + totalAmount),
                                             hasActed := True \<rparr>);
                g1 = g\<lparr> players := (players g)[currentPlayerIndex g := player'],
                        currentBet := p_currentBet player', pot := toDouble (pot g + totalAmount) \<rparr>;
                g2 = g1\<lparr> players := resetOthers (currentPlayerIndex g1) 0 (players g1) \<rparr>;
                result = ''Player '' @ show_nat (player_id player') @ '' raises to ''
                           @ show_int (p_currentBet player')
            in (result, moveToNextPlayer g2))"

definition allIn_dbl :: "PokerGame \<Rightarrow> string \<times> PokerGame" where
  "allIn_dbl g =
     (case getCurrentPlayer g of
        None \<Rightarrow> ([], g)
      | Some player \<Rightarrow>
          if stack player = 0 then ([], g)
          else
            let allInAmount = stack player;
                player' = player\<lparr> stack := 0,
                                  p_currentBet := toDouble (p_currentBet player + allInAmount),
                                  hasActed := True, isAllIn := True \<rparr>;
                g1 = g\<lparr> players := (players g)[currentPlayerIndex g := player'],
                        pot := toDouble (pot g + allInAmount) \<rparr>;
                g2 = (if p_currentBet player' > currentBet g1
                      then g1\<lparr> currentBet := p_currentBet player',
                               players := resetOthers (currentPlayerIndex g1) 0 (players g1) \<rparr>
                      else g1);
                result = ''Player '' @ show_nat (player_id player') @ '' goes all-in with ''
                           @ show_int allInAmount
            in (result, moveToNextPlayer g2))"

fun perform_dbl :: "Event \<Rightarrow> PokerGame \<Rightarrow> string option \<times> PokerGame" where
  "perform_dbl Fold g = (let (r, g') = fold_action g in (Some r, g'))"
| "perform_dbl Check g = (let (r, g') = check g in (Some r, g'))"
| "perform_dbl Call g = (let (r, g') = call_dbl g in (Some r, g'))"
| "perform_dbl (Bet n) g = (let (r, g') = bet_dbl n g in (Some r, g'))"
| "perform_dbl (Raise n) g = (let (r, g') = raise_dbl n g in (Some r, g'))"
| "perform_dbl AllIn g = (let (r, g') = allIn_dbl g in (Some r, g'))"
| "perform_dbl DealCommunityCards g = dealCommunityCards g"

definition step_dbl :: "Event \<Rightarrow> PokerGame \<Rightarrow> PokerGame" where
  "step_dbl e g = snd (perform_dbl e g)"

definition run_dbl :: "Event list \<Rightarrow> PokerGame \<Rightarrow> PokerGame" where
  "run_dbl es g = fold step_dbl es g"

text \<open>
  The numbers \<^verbatim>\<open>startNewHand\<close> works with on a new game with starting stack \<open>S\<close>
  (the stack itself, the two stacks after the blinds, the pot), and the exact results
  of the additions and subtractions one action performs in a state, with the requested
  amount. A rejected action computes nothing.
\<close>

definition computedAtStart :: "int \<Rightarrow> int list" where
  "computedAtStart S =
     (let g = PokerGame_new S
      in [S, S - smallBlind g, S - bigBlind g, smallBlind g + bigBlind g])"

definition computed :: "Event \<Rightarrow> PokerGame \<Rightarrow> int list" where
  "computed e g =
     (case getCurrentPlayer g of
        None \<Rightarrow> []
      | Some player \<Rightarrow>
          (case e of
             Call \<Rightarrow>
               (let callAmount = currentBet g - p_currentBet player;
                    actualCall = min callAmount (stack player)
                in [callAmount, stack player - actualCall, p_currentBet player + actualCall,
                    pot g + actualCall])
           | Bet amount \<Rightarrow>
               (if currentBet g > 0 then []
                else let betAmount = min amount (stack player)
                     in [amount, stack player - betAmount, pot g + betAmount])
           | Raise amount \<Rightarrow>
               (if currentBet g = 0 then []
                else let callAmount = currentBet g - p_currentBet player;
                         totalAmount = min (callAmount + amount) (stack player)
                     in [amount, callAmount, callAmount + amount, stack player - totalAmount,
                         p_currentBet player + totalAmount, pot g + totalAmount])
           | AllIn \<Rightarrow>
               (if stack player = 0 then []
                else [p_currentBet player + stack player, pot g + stack player])
           | _ \<Rightarrow> []))"

text \<open>No step of the run rounds: every number it computes is a safe integer.\<close>

fun exactRun :: "Event list \<Rightarrow> PokerGame \<Rightarrow> bool" where
  "exactRun [] g = True"
| "exactRun (e # es) g = (list_all exact (computed e g) \<and> exactRun es (step_dbl e g))"

section \<open>Turn rotation only moves the turn\<close>

lemma map_update_same: "f y = f (xs ! i) \<Longrightarrow> map f (xs[i := y]) = map f xs"
  by (induction xs arbitrary: i) (auto split: nat.splits)

lemma sum_list_map_update:
  fixes f :: "'a \<Rightarrow> int"
  shows "i < length xs \<Longrightarrow> sum_list (map f (xs[i := y])) = sum_list (map f xs) - f (xs ! i) + f y"
  by (induction xs arbitrary: i) (auto split: nat.splits)

lemma rotateTurn_shape: "\<exists>k. rotateTurn a g = g\<lparr> currentPlayerIndex := k \<rparr> \<and> k < 6"
proof (induction a g rule: rotateTurn.induct)
  case (1 attempts g)
  show ?case
  proof (cases "\<not> 6 < attempts + 1 \<and> seatBusy (g\<lparr> currentPlayerIndex := (currentPlayerIndex g + 1) mod 6 \<rparr>)")
    case True
    with 1 obtain k where
      "rotateTurn (attempts + 1) (g\<lparr> currentPlayerIndex := (currentPlayerIndex g + 1) mod 6 \<rparr>)
         = g\<lparr> currentPlayerIndex := (currentPlayerIndex g + 1) mod 6 \<rparr>\<lparr> currentPlayerIndex := k \<rparr>" "k < 6"
      by blast
    with True show ?thesis
      by (subst rotateTurn.simps) (auto simp: Let_def)
  next
    case False
    then show ?thesis
      by (subst rotateTurn.simps) (auto simp: Let_def)
  qed
qed

lemma seekFirstToAct_shape:
  "currentPlayerIndex g < 6 \<Longrightarrow> \<exists>k. seekFirstToAct a g = g\<lparr> currentPlayerIndex := k \<rparr> \<and> k < 6"
proof (induction a g rule: seekFirstToAct.induct)
  case (1 attempts g)
  show ?case
  proof (cases "seatBusy g \<and> \<not> 6 < attempts + 1")
    case True
    let ?g' = "g\<lparr> currentPlayerIndex := (currentPlayerIndex g + 1) mod 6 \<rparr>"
    have "\<exists>k. seekFirstToAct (attempts + 1) ?g' = ?g'\<lparr> currentPlayerIndex := k \<rparr> \<and> k < 6"
      using True by (intro "1.IH") auto
    then obtain k where "seekFirstToAct (attempts + 1) ?g' = ?g'\<lparr> currentPlayerIndex := k \<rparr>" "k < 6"
      by blast
    with True show ?thesis
      by (subst seekFirstToAct.simps) (auto simp: Let_def)
  next
    case False
    then show ?thesis using "1.prems"
      by (subst seekFirstToAct.simps) (auto simp: Let_def intro: exI[of _ "currentPlayerIndex g"])
  qed
qed

lemma moveToNextBettingRound_shape:
  "\<exists>k st. moveToNextBettingRound g =
      g\<lparr> players := map (\<lambda>p. p\<lparr> hasActed := False, p_currentBet := 0 \<rparr>) (players g), currentBet := 0, gameState := st,
         currentPlayerIndex := k \<rparr> \<and> (k < 6 \<or> k = currentPlayerIndex g)"
proof -
  let ?g3 = "g\<lparr> players := map (\<lambda>p. p\<lparr> hasActed := False, p_currentBet := 0 \<rparr>) (players g), currentBet := 0,
                gameState := nextStreet (gameState g) \<rparr>"
  let ?g4 = "?g3\<lparr> currentPlayerIndex := (dealerPosition g + 1) mod 6 \<rparr>"
  have "currentPlayerIndex ?g4 < 6" by simp
  from seekFirstToAct_shape[OF this, of 0] obtain k where
    k: "seekFirstToAct 0 ?g4 = ?g4\<lparr> currentPlayerIndex := k \<rparr>" "k < 6" by blast
  show ?thesis
  proof (cases "list_all isAllIn (filter (\<lambda>p. \<not> isFolded p) (players ?g3))
                \<or> length (filter (\<lambda>p. \<not> isFolded p) (players ?g3)) \<le> 1")
    case True
    then have "moveToNextBettingRound g = ?g3\<lparr> gameState := Showdown \<rparr>"
      unfolding moveToNextBettingRound_def Let_def by simp
    then show ?thesis
      by (intro exI[of _ "currentPlayerIndex g"] exI[of _ Showdown]) simp
  next
    case False
    then have "moveToNextBettingRound g = seekFirstToAct 0 ?g4"
      unfolding moveToNextBettingRound_def Let_def by simp
    with k show ?thesis
      by (intro exI[of _ k] exI[of _ "nextStreet (gameState g)"]) simp
  qed
qed

lemma moveToNextPlayer_shape:
  "\<exists>ps cb st k. moveToNextPlayer g =
      g\<lparr> players := ps, currentBet := cb, gameState := st, currentPlayerIndex := k \<rparr>
      \<and> (ps = players g \<or> ps = map (\<lambda>p. p\<lparr> hasActed := False, p_currentBet := 0 \<rparr>) (players g))
      \<and> (k < 6 \<or> k = currentPlayerIndex g)"
proof -
  consider (over) "isHandComplete g"
    | (street) "\<not> isHandComplete g" "isBettingRoundComplete g"
    | (turn) "\<not> isHandComplete g" "\<not> isBettingRoundComplete g"
    by blast
  then show ?thesis
  proof cases
    case over
    then have "moveToNextPlayer g = g" by (simp add: moveToNextPlayer_def)
    then show ?thesis
      by (intro exI[of _ "players g"] exI[of _ "currentBet g"] exI[of _ "gameState g"]
                exI[of _ "currentPlayerIndex g"]) simp
  next
    case street
    then have "moveToNextPlayer g = moveToNextBettingRound g" by (simp add: moveToNextPlayer_def)
    moreover from moveToNextBettingRound_shape[of g] obtain k st where
      "moveToNextBettingRound g =
        g\<lparr> players := map (\<lambda>p. p\<lparr> hasActed := False, p_currentBet := 0 \<rparr>) (players g), currentBet := 0,
           gameState := st, currentPlayerIndex := k \<rparr>" "k < 6 \<or> k = currentPlayerIndex g"
      by blast
    ultimately show ?thesis by metis
  next
    case turn
    then have "moveToNextPlayer g = rotateTurn 0 g" by (simp add: moveToNextPlayer_def)
    moreover from rotateTurn_shape[of 0 g] obtain k where
      "rotateTurn 0 g = g\<lparr> currentPlayerIndex := k \<rparr>" "k < 6" by blast
    ultimately show ?thesis
      by (intro exI[of _ "players g"] exI[of _ "currentBet g"] exI[of _ "gameState g"]
                exI[of _ k]) simp
  qed
qed

lemma moveToNextPlayer_pot [simp]: "pot (moveToNextPlayer g) = pot g"
  using moveToNextPlayer_shape[of g] by (elim exE conjE) simp

lemma moveToNextPlayer_deck [simp]: "deck (moveToNextPlayer g) = deck g"
  using moveToNextPlayer_shape[of g] by (elim exE conjE) simp

lemma moveToNextPlayer_communityCards [simp]:
  "communityCards (moveToNextPlayer g) = communityCards g"
  using moveToNextPlayer_shape[of g] by (elim exE conjE) simp

lemma moveToNextPlayer_length [simp]: "length (players (moveToNextPlayer g)) = length (players g)"
  using moveToNextPlayer_shape[of g] by (elim exE conjE) auto

lemma moveToNextPlayer_stacks [simp]:
  "map stack (players (moveToNextPlayer g)) = map stack (players g)"
  using moveToNextPlayer_shape[of g] by (elim exE conjE) (auto simp: comp_def)

lemma moveToNextPlayer_isFolded [simp]:
  "map isFolded (players (moveToNextPlayer g)) = map isFolded (players g)"
  using moveToNextPlayer_shape[of g] by (elim exE conjE) (auto simp: comp_def)

lemma moveToNextPlayer_isAllIn [simp]:
  "map isAllIn (players (moveToNextPlayer g)) = map isAllIn (players g)"
  using moveToNextPlayer_shape[of g] by (elim exE conjE) (auto simp: comp_def)

lemma moveToNextPlayer_holeCards [simp]:
  "map holeCards (players (moveToNextPlayer g)) = map holeCards (players g)"
  using moveToNextPlayer_shape[of g] by (elim exE conjE) (auto simp: comp_def)

lemma moveToNextPlayer_index:
  "currentPlayerIndex g < 6 \<Longrightarrow> currentPlayerIndex (moveToNextPlayer g) < 6"
  using moveToNextPlayer_shape[of g] by (elim exE conjE) auto

lemma resetOthers_length [simp]: "length (resetOthers c i ps) = length ps"
  by (induction ps arbitrary: i) auto

lemma resetOthers_stacks [simp]: "map stack (resetOthers c i ps) = map stack ps"
  by (induction ps arbitrary: i) auto

lemma resetOthers_isFolded [simp]: "map isFolded (resetOthers c i ps) = map isFolded ps"
  by (induction ps arbitrary: i) auto

lemma resetOthers_isAllIn [simp]: "map isAllIn (resetOthers c i ps) = map isAllIn ps"
  by (induction ps arbitrary: i) auto

lemma resetOthers_holeCards [simp]: "map holeCards (resetOthers c i ps) = map holeCards ps"
  by (induction ps arbitrary: i) auto

lemma getCurrentPlayer_SomeD:
  "getCurrentPlayer g = Some p \<Longrightarrow>
     \<not> isHandComplete g \<and> currentPlayerIndex g < length (players g) \<and> p = players g ! currentPlayerIndex g"
  by (auto simp: getCurrentPlayer_def split: if_splits)

lemma totalChips_moveToNextPlayer [simp]: "totalChips (moveToNextPlayer g) = totalChips g"
  by (simp add: totalChips_def)

lemma markAllIn_stack [simp]: "stack (markAllIn p) = stack p"
  by (simp add: markAllIn_def)

lemma markAllIn_isFolded [simp]: "isFolded (markAllIn p) = isFolded p"
  by (simp add: markAllIn_def)

lemma markAllIn_holeCards [simp]: "holeCards (markAllIn p) = holeCards p"
  by (simp add: markAllIn_def)

lemma totalChips_fold: "totalChips (snd (fold_action g)) = totalChips g"
  by (auto simp: fold_action_def Let_def totalChips_def map_update_same
           split: option.splits dest!: getCurrentPlayer_SomeD)

lemma totalChips_check: "totalChips (snd (check g)) = totalChips g"
  by (auto simp: check_def Let_def totalChips_def map_update_same
           split: option.splits dest!: getCurrentPlayer_SomeD)

lemma totalChips_call: "totalChips (snd (call g)) = totalChips g"
  by (auto simp: call_def Let_def totalChips_def sum_list_map_update
           split: option.splits dest!: getCurrentPlayer_SomeD)

lemma totalChips_bet: "totalChips (snd (bet n g)) = totalChips g"
  by (auto simp: bet_def Let_def totalChips_def sum_list_map_update
           split: option.splits dest!: getCurrentPlayer_SomeD)

lemma totalChips_raise: "totalChips (snd (raise n g)) = totalChips g"
  by (auto simp: raise_def Let_def totalChips_def sum_list_map_update
           split: option.splits dest!: getCurrentPlayer_SomeD)

lemma totalChips_allIn: "totalChips (snd (allIn g)) = totalChips g"
  by (auto simp: allIn_def Let_def totalChips_def sum_list_map_update
           split: option.splits dest!: getCurrentPlayer_SomeD)

section \<open>The deck and the deal\<close>

lemma shuffleLoop_length [simp]: "length (shuffleLoop rnd i xs) = length xs"
  by (induction i arbitrary: xs) (auto simp: Let_def)

lemma orderedDeck_length:
  "length (concat (map (\<lambda>suit. map (\<lambda>rank. rank @ suit) ranks) suits)) = 52"
  by (simp add: suits_def ranks_def)

lemma createDeck_length: "length (createDeck rnd) = 52"
  unfolding createDeck_def shuffleDeck_def
  by (simp only: shuffleLoop_length orderedDeck_length)

lemma pop_length: "length (snd (pop d)) = length d - 1"
  by (simp add: pop_def)

lemma pop_defined: "d \<noteq> [] \<Longrightarrow> fst (pop d) \<noteq> None"
  by (simp add: pop_def)

lemma list_all_update:
  "list_all P xs \<Longrightarrow> (i < length xs \<Longrightarrow> P y) \<Longrightarrow> list_all P (xs[i := y])"
  by (induction xs arbitrary: i) (auto split: nat.splits)

lemma dealHoleCard_shape:
  "\<exists>ps d. dealHoleCard j g = g\<lparr> players := ps, deck := d \<rparr>
     \<and> length ps = length (players g)
     \<and> map stack ps = map stack (players g)
     \<and> map isFolded ps = map isFolded (players g)
     \<and> length d = length (deck g) - 1
     \<and> map (length \<circ> holeCards) ps
          = (map (length \<circ> holeCards) (players g))[j := Suc (length (holeCards (players g ! j)))]
     \<and> (deck g \<noteq> [] \<and> list_all (cardsDefined \<circ> holeCards) (players g)
          \<longrightarrow> list_all (cardsDefined \<circ> holeCards) ps)"
proof -
  obtain c d where cd: "pop (deck g) = (c, d)" by (cases "pop (deck g)")
  let ?ps = "(players g)[j := (players g ! j)\<lparr> holeCards := holeCards (players g ! j) @ [c] \<rparr>]"
  have eq: "dealHoleCard j g = g\<lparr> players := ?ps, deck := d \<rparr>"
    by (simp add: dealHoleCard_def cd Let_def)
  have len: "length d = length (deck g) - 1"
    using pop_length[of "deck g"] cd by simp
  have def: "deck g \<noteq> [] \<Longrightarrow> c \<noteq> None"
    using pop_defined[of "deck g"] cd by simp
  have cards: "list_all (cardsDefined \<circ> holeCards) ?ps"
    if "deck g \<noteq> []" "list_all (cardsDefined \<circ> holeCards) (players g)"
  proof (rule list_all_update[OF that(2)])
    assume "j < length (players g)"
    then have "cardsDefined (holeCards (players g ! j))"
      using that(2) by (simp add: list_all_length)
    then show "(cardsDefined \<circ> holeCards)
                 ((players g ! j)\<lparr> holeCards := holeCards (players g ! j) @ [c] \<rparr>)"
      using def[OF that(1)] by (simp add: cardsDefined_def)
  qed
  have stacks: "map stack ?ps = map stack (players g)"
    by (simp add: map_update_same)
  have folded: "map isFolded ?ps = map isFolded (players g)"
    by (simp add: map_update_same)
  have counts: "map (length \<circ> holeCards) ?ps
          = (map (length \<circ> holeCards) (players g))[j := Suc (length (holeCards (players g ! j)))]"
    by (simp add: map_update)
  show ?thesis
    apply (intro exI[of _ ?ps] exI[of _ d])
    using eq len cards stacks folded counts by simp
qed

lemma dealtShape_refl: "dealtShape g 0 g"
  unfolding dealtShape_def
  by (intro exI[of _ "players g"] exI[of _ "deck g"]) simp

lemma dealtShape_step:
  assumes "dealtShape g n g'"
  shows "dealtShape g (Suc n) (dealHoleCard j g')"
proof -
  from assms obtain ps d where g': "g' = g\<lparr> players := ps, deck := d \<rparr>"
    and a: "length ps = length (players g)" "map stack ps = map stack (players g)"
      "map isFolded ps = map isFolded (players g)" "length d = length (deck g) - n"
      "n \<le> length (deck g) \<and> list_all (cardsDefined \<circ> holeCards) (players g)
        \<longrightarrow> list_all (cardsDefined \<circ> holeCards) ps"
    unfolding dealtShape_def by blast
  from dealHoleCard_shape[of j g'] obtain ps' d' where
    b: "dealHoleCard j g' = g'\<lparr> players := ps', deck := d' \<rparr>"
      "length ps' = length (players g')" "map stack ps' = map stack (players g')"
      "map isFolded ps' = map isFolded (players g')" "length d' = length (deck g') - 1"
      "deck g' \<noteq> [] \<and> list_all (cardsDefined \<circ> holeCards) (players g')
        \<longrightarrow> list_all (cardsDefined \<circ> holeCards) ps'"
    by blast
  have "Suc n \<le> length (deck g) \<Longrightarrow> d \<noteq> []"
    using a(4) by auto
  then show ?thesis
    unfolding dealtShape_def
    apply (intro exI[of _ ps'] exI[of _ d'])
    using a b g' by auto
qed

lemma dealtShape_fold:
  "dealtShape g n g' \<Longrightarrow> dealtShape g (n + length js) (fold dealHoleCard js g')"
proof (induction js arbitrary: n g')
  case Nil
  then show ?case by simp
next
  case (Cons j js)
  from Cons.IH[OF dealtShape_step[OF Cons.prems, of j]] show ?case by simp
qed

lemma dealHoleCards_unfold:
  "dealHoleCards g = fold dealHoleCard [0..<6] (fold dealHoleCard [0..<6] g)"
  by (simp add: dealHoleCards_def numeral_2_eq_2)

lemma dealHoleCards_shape: "dealtShape g 12 (dealHoleCards g)"
proof -
  have "dealtShape g (0 + length [0..<6::nat]) (fold dealHoleCard [0..<6] g)"
    by (rule dealtShape_fold[OF dealtShape_refl])
  from dealtShape_fold[OF this, of "[0..<6]"] show ?thesis
    by (simp add: dealHoleCards_unfold)
qed

lemma dealHoleCard_counts:
  "map (length \<circ> holeCards) (players (dealHoleCard j g))
     = (map (length \<circ> holeCards) (players g))[j := Suc (map (length \<circ> holeCards) (players g) ! j)]"
proof -
  from dealHoleCard_shape[of j g] obtain ps d where
    "dealHoleCard j g = g\<lparr> players := ps, deck := d \<rparr>"
    "map (length \<circ> holeCards) ps
       = (map (length \<circ> holeCards) (players g))[j := Suc (length (holeCards (players g ! j)))]"
    by blast
  then show ?thesis
    by (cases "j < length (players g)") (simp_all add: list_update_beyond)
qed

lemma fold_dealHoleCard_counts:
  "map (length \<circ> holeCards) (players (fold dealHoleCard js g))
     = fold (\<lambda>j cs. cs[j := Suc (cs ! j)]) js (map (length \<circ> holeCards) (players g))"
  by (induction js arbitrary: g) (simp_all add: dealHoleCard_counts)

lemma upt_6: "[0..<6] = [0, 1, 2, 3, 4, 5::nat]"
  by (simp add: upt_rec)

lemma dealHoleCards_counts:
  assumes "map (length \<circ> holeCards) (players g) = [0, 0, 0, 0, 0, 0]"
  shows "map (length \<circ> holeCards) (players (dealHoleCards g)) = [2, 2, 2, 2, 2, 2]"
proof -
  let ?f = "\<lambda>j (cs :: nat list). cs[j := Suc (cs ! j)]"
  have "map (length \<circ> holeCards) (players (dealHoleCards g))
          = fold ?f [0..<6] (fold ?f [0..<6] (map (length \<circ> holeCards) (players g)))"
    by (simp only: dealHoleCards_unfold fold_dealHoleCard_counts)
  also have "\<dots> = fold ?f [0..<6] (fold ?f [0..<6] [0, 0, 0, 0, 0, 0])"
    by (simp only: assms)
  also have "\<dots> = [2, 2, 2, 2, 2, 2]"
    by (simp add: upt_6)
  finally show ?thesis .
qed

lemma postBlinds_players:
  "\<exists>ps. postBlinds g = g\<lparr> players := ps, pot := smallBlind g + bigBlind g \<rparr>
     \<and> length ps = length (players g)
     \<and> map isFolded ps = map isFolded (players g)
     \<and> map holeCards ps = map holeCards (players g)
     \<and> map stack ps
          = (let st = map stack (players g);
                 st1 = st[smallBlindPosition g := st ! smallBlindPosition g - smallBlind g]
             in st1[bigBlindPosition g := st1 ! bigBlindPosition g - bigBlind g])"
proof -
  define sb where "sb = smallBlindPosition g"
  define bb where "bb = bigBlindPosition g"
  define ps where "ps = players g"
  define ps1 where "ps1 = ps[sb := (ps ! sb)\<lparr> stack := stack (ps ! sb) - smallBlind g \<rparr>]"
  define ps2 where "ps2 = ps1[sb := (ps1 ! sb)\<lparr> p_currentBet := smallBlind g \<rparr>]"
  define ps3 where "ps3 = ps2[bb := (ps2 ! bb)\<lparr> stack := stack (ps2 ! bb) - bigBlind g \<rparr>]"
  define ps4 where "ps4 = ps3[bb := (ps3 ! bb)\<lparr> p_currentBet := bigBlind g \<rparr>]"
  have eq: "postBlinds g = g\<lparr> players := ps4, pot := smallBlind g + bigBlind g \<rparr>"
    by (simp add: postBlinds_def Let_def ps4_def ps3_def ps2_def ps1_def ps_def sb_def bb_def)
  have len: "length ps4 = length ps"
    by (simp add: ps4_def ps3_def ps2_def ps1_def)
  have "map isFolded ps1 = map isFolded ps" unfolding ps1_def by (rule map_update_same) simp
  moreover have "map isFolded ps2 = map isFolded ps1" unfolding ps2_def by (rule map_update_same) simp
  moreover have "map isFolded ps3 = map isFolded ps2" unfolding ps3_def by (rule map_update_same) simp
  moreover have "map isFolded ps4 = map isFolded ps3" unfolding ps4_def by (rule map_update_same) simp
  ultimately have folded: "map isFolded ps4 = map isFolded ps" by simp
  have "map holeCards ps1 = map holeCards ps" unfolding ps1_def by (rule map_update_same) simp
  moreover have "map holeCards ps2 = map holeCards ps1" unfolding ps2_def by (rule map_update_same) simp
  moreover have "map holeCards ps3 = map holeCards ps2" unfolding ps3_def by (rule map_update_same) simp
  moreover have "map holeCards ps4 = map holeCards ps3" unfolding ps4_def by (rule map_update_same) simp
  ultimately have cards: "map holeCards ps4 = map holeCards ps" by simp
  have nth_stack: "(map stack xs)[i := stack (xs ! i) - v] = (map stack xs)[i := map stack xs ! i - v]"
    for xs :: "Player list" and i v
    by (cases "i < length xs") (simp_all add: list_update_beyond)
  have s1: "map stack ps1 = (map stack ps)[sb := map stack ps ! sb - smallBlind g]"
    unfolding ps1_def by (simp add: map_update nth_stack)
  have s2: "map stack ps2 = map stack ps1" unfolding ps2_def by (rule map_update_same) simp
  have s3: "map stack ps3 = (map stack ps2)[bb := map stack ps2 ! bb - bigBlind g]"
    unfolding ps3_def by (simp add: map_update nth_stack)
  have s4: "map stack ps4 = map stack ps3" unfolding ps4_def by (rule map_update_same) simp
  have stacks: "map stack ps4
          = (let st = map stack ps; st1 = st[sb := st ! sb - smallBlind g]
             in st1[bb := st1 ! bb - bigBlind g])"
    by (simp add: Let_def s1 s2 s3 s4)
  show ?thesis
    apply (rule exI[of _ ps4])
    using eq len folded cards stacks unfolding ps_def sb_def bb_def by simp
qed

lemma initializePlayers_facts:
  "map stack (map resetPlayer (initializePlayers S)) = [S, S, S, S, S, S]"
  "map isFolded (map resetPlayer (initializePlayers S)) = [False, False, False, False, False, False]"
  "map (length \<circ> holeCards) (map resetPlayer (initializePlayers S)) = [0, 0, 0, 0, 0, 0]"
  "list_all (cardsDefined \<circ> holeCards) (map resetPlayer (initializePlayers S))"
  by (simp_all add: initializePlayers_def resetPlayer_def upt_6 cardsDefined_def)

lemma freshHand_facts:
  "pot (freshHand S rnd hid) = 60"
  "currentBet (freshHand S rnd hid) = 40"
  "currentPlayerIndex (freshHand S rnd hid) = 3"
  "smallBlindPosition (freshHand S rnd hid) = 1"
  "bigBlindPosition (freshHand S rnd hid) = 2"
  "bigBlind (freshHand S rnd hid) = 40"
  "gameState (freshHand S rnd hid) = Preflop"
  "communityCards (freshHand S rnd hid) = []"
  "length (deck (freshHand S rnd hid)) = 40"
  "map stack (players (freshHand S rnd hid)) = [S, S - 20, S - 40, S, S, S]"
  "map isFolded (players (freshHand S rnd hid)) = [False, False, False, False, False, False]"
  "map (length \<circ> holeCards) (players (freshHand S rnd hid)) = [2, 2, 2, 2, 2, 2]"
  "list_all (cardsDefined \<circ> holeCards) (players (freshHand S rnd hid))"
proof -
  define g2 where "g2 = (PokerGame_new S)\<lparr> handId := hid, deck := createDeck rnd,
      communityCards := [], pot := 0, currentBet := bigBlind (PokerGame_new S),
      gameState := Preflop, players := map resetPlayer (players (PokerGame_new S)) \<rparr>"
  have g2: "players g2 = map resetPlayer (initializePlayers S)" "length (deck g2) = 52"
    "smallBlindPosition g2 = 1" "bigBlindPosition g2 = 2" "smallBlind g2 = 20" "bigBlind g2 = 40"
    "currentBet g2 = 40" "gameState g2 = Preflop" "communityCards g2 = []"
    by (simp_all add: g2_def PokerGame_new_def createDeck_length)
  have init: "map stack (players g2) = [S, S, S, S, S, S]"
    "map isFolded (players g2) = [False, False, False, False, False, False]"
    "map (length \<circ> holeCards) (players g2) = [0, 0, 0, 0, 0, 0]"
    "list_all (cardsDefined \<circ> holeCards) (players g2)"
    by (simp_all only: g2(1) initializePlayers_facts)
  from dealHoleCards_shape[of g2] obtain ps d where
    g3: "dealHoleCards g2 = g2\<lparr> players := ps, deck := d \<rparr>"
    and ps: "length ps = length (players g2)" "map stack ps = map stack (players g2)"
      "map isFolded ps = map isFolded (players g2)" "length d = length (deck g2) - 12"
      "12 \<le> length (deck g2) \<and> list_all (cardsDefined \<circ> holeCards) (players g2)
        \<longrightarrow> list_all (cardsDefined \<circ> holeCards) ps"
    unfolding dealtShape_def by blast
  have counts: "map (length \<circ> holeCards) ps = [2, 2, 2, 2, 2, 2]"
    using dealHoleCards_counts[OF init(3)] g3 by simp
  have defined: "list_all (cardsDefined \<circ> holeCards) ps"
    using ps(5) init(4) by (simp add: g2(2))
  define g3 where "g3 = g2\<lparr> players := ps, deck := d \<rparr>"
  from postBlinds_players[of g3] obtain ps' where
    g4: "postBlinds g3 = g3\<lparr> players := ps', pot := smallBlind g3 + bigBlind g3 \<rparr>"
    and ps': "length ps' = length (players g3)" "map isFolded ps' = map isFolded (players g3)"
      "map holeCards ps' = map holeCards (players g3)"
      "map stack ps' = (let st = map stack (players g3);
                 st1 = st[smallBlindPosition g3 := st ! smallBlindPosition g3 - smallBlind g3]
             in st1[bigBlindPosition g3 := st1 ! bigBlindPosition g3 - bigBlind g3])"
    by blast
  have fresh: "freshHand S rnd hid = g3\<lparr> players := ps', pot := 60, currentPlayerIndex := 3 \<rparr>"
    using g4 \<open>dealHoleCards g2 = g2\<lparr> players := ps, deck := d \<rparr>\<close>
    by (simp add: freshHand_def startNewHand_def Let_def g2_def[symmetric] g3_def[symmetric])
       (simp add: g3_def g2)
  have cards': "map (length \<circ> holeCards) ps' = map (length \<circ> holeCards) ps"
    using ps'(3) by (simp add: g3_def map_map[symmetric] del: map_map)
  have defined': "list_all (cardsDefined \<circ> holeCards) ps'"
  proof -
    have "list_all cardsDefined (map holeCards ps')"
      using defined ps'(3) by (simp add: g3_def list_all_iff)
    then show ?thesis by (simp add: list_all_iff)
  qed
  show "pot (freshHand S rnd hid) = 60" by (simp add: fresh)
  show "currentBet (freshHand S rnd hid) = 40" by (simp add: fresh g3_def g2)
  show "currentPlayerIndex (freshHand S rnd hid) = 3" by (simp add: fresh)
  show "smallBlindPosition (freshHand S rnd hid) = 1" by (simp add: fresh g3_def g2)
  show "bigBlindPosition (freshHand S rnd hid) = 2" by (simp add: fresh g3_def g2)
  show "bigBlind (freshHand S rnd hid) = 40" by (simp add: fresh g3_def g2)
  show "gameState (freshHand S rnd hid) = Preflop" by (simp add: fresh g3_def g2)
  show "communityCards (freshHand S rnd hid) = []" by (simp add: fresh g3_def g2)
  show "length (deck (freshHand S rnd hid)) = 40" by (simp add: fresh g3_def ps g2)
  show "map stack (players (freshHand S rnd hid)) = [S, S - 20, S - 40, S, S, S]"
    using ps'(4) by (simp add: fresh g3_def ps g2(2-) init)
  show "map isFolded (players (freshHand S rnd hid)) = [False, False, False, False, False, False]"
    using ps'(2) by (simp add: fresh g3_def ps g2(2-) init)
  show "map (length \<circ> holeCards) (players (freshHand S rnd hid)) = [2, 2, 2, 2, 2, 2]"
    using cards' counts by (simp add: fresh)
  show "list_all (cardsDefined \<circ> holeCards) (players (freshHand S rnd hid))"
    using defined' by (simp add: fresh)
qed

section \<open>Dealing community cards\<close>

lemma burn_shape: "burn g = g\<lparr> deck := butlast (deck g) \<rparr>"
  by (simp add: burn_def pop_def)

lemma revealOne_shape:
  "revealOne g = g\<lparr> communityCards := communityCards g @ [fst (pop (deck g))],
                    deck := butlast (deck g) \<rparr>"
  by (simp add: revealOne_def pop_def)

lemma dealCommunityCards_cases:
  "snd (dealCommunityCards g) =
     (if gameState g = Flop \<and> length (communityCards g) = 0
      then revealOne (revealOne (revealOne (burn g)))
      else if (gameState g = Turn \<and> length (communityCards g) = 3)
            \<or> (gameState g = River \<and> length (communityCards g) = 4)
      then revealOne (burn g) else g)"
proof -
  have three: "[0..<3] = [0, 1, 2::nat]" by (simp add: upt_rec)
  show ?thesis
    unfolding dealCommunityCards_def Let_def three by simp
qed

lemma dealCommunityCards_frame [simp]:
  "players (snd (dealCommunityCards g)) = players g"
  "pot (snd (dealCommunityCards g)) = pot g"
  "gameState (snd (dealCommunityCards g)) = gameState g"
  "currentBet (snd (dealCommunityCards g)) = currentBet g"
  "currentPlayerIndex (snd (dealCommunityCards g)) = currentPlayerIndex g"
  by (simp_all add: dealCommunityCards_cases revealOne_shape burn_shape)

lemma totalChips_dealCommunityCards:
  "totalChips (snd (dealCommunityCards g)) = totalChips g"
  by (simp add: totalChips_def)

section \<open>Exact arithmetic conserves chips\<close>

lemma totalChips_step: "totalChips (step e g) = totalChips g"
  by (cases e)
     (simp_all add: step_def split_beta totalChips_fold totalChips_check totalChips_call
        totalChips_bet totalChips_raise totalChips_allIn totalChips_dealCommunityCards)

lemma totalChips_run: "totalChips (run es g) = totalChips g"
  unfolding run_def by (induction es arbitrary: g) (simp_all add: totalChips_step)

lemma totalChips_freshHand: "totalChips (freshHand S rnd hid) = 6 * S"
  by (simp add: totalChips_def freshHand_facts)

section \<open>The fresh hand, written out\<close>

lemma twelve_elements:
  "length ys = 12 \<Longrightarrow>
     \<exists>x1 x2 x3 x4 x5 x6 x7 x8 x9 x10 x11 x12. ys = [x1, x2, x3, x4, x5, x6, x7, x8, x9, x10, x11, x12]"
  by (auto simp: eval_nat_numeral length_Suc_conv)

lemma last_twelve:
  assumes "length xs = n + 12"
  shows "\<exists>d x1 x2 x3 x4 x5 x6 x7 x8 x9 x10 x11 x12.
           xs = d @ [x1, x2, x3, x4, x5, x6, x7, x8, x9, x10, x11, x12] \<and> length d = n"
proof -
  have "length (drop n xs) = 12" using assms by simp
  from twelve_elements[OF this] obtain x1 x2 x3 x4 x5 x6 x7 x8 x9 x10 x11 x12 where
    "drop n xs = [x1, x2, x3, x4, x5, x6, x7, x8, x9, x10, x11, x12]"
    by blast
  then have "xs = take n xs @ [x1, x2, x3, x4, x5, x6, x7, x8, x9, x10, x11, x12]"
    by (metis append_take_drop_id)
  moreover have "length (take n xs) = n" using assms by simp
  ultimately show ?thesis by blast
qed

lemma dealRound:
  "fold dealHoleCard [0, 1, 2, 3, 4, 5]
     (g\<lparr> players := [p0, p1, p2, p3, p4, p5], deck := d @ [x1, x2, x3, x4, x5, x6] \<rparr>)
   = g\<lparr> players := [p0\<lparr> holeCards := holeCards p0 @ [Some x6] \<rparr>,
                     p1\<lparr> holeCards := holeCards p1 @ [Some x5] \<rparr>,
                     p2\<lparr> holeCards := holeCards p2 @ [Some x4] \<rparr>,
                     p3\<lparr> holeCards := holeCards p3 @ [Some x3] \<rparr>,
                     p4\<lparr> holeCards := holeCards p4 @ [Some x2] \<rparr>,
                     p5\<lparr> holeCards := holeCards p5 @ [Some x1] \<rparr>], deck := d \<rparr>"
  by (simp add: dealHoleCard_def pop_def butlast_append)

lemma freshHand_explicit:
  "\<exists>d x1 x2 x3 x4 x5 x6 x7 x8 x9 x10 x11 x12.
     length d = 40 \<and>
     freshHand S rnd hid =
       \<lparr> players = [seat 1 S 0 x12 x6, seat 2 (S - 20) 20 x11 x5, seat 3 (S - 40) 40 x10 x4,
                    seat 4 S 0 x9 x3, seat 5 S 0 x8 x2, seat 6 S 0 x7 x1],
         dealerPosition = 0, smallBlindPosition = 1, bigBlindPosition = 2,
         currentPlayerIndex = 3, smallBlind = 20, bigBlind = 40, pot = 60,
         communityCards = [], currentBet = 40, gameState = Preflop, stackSize = S,
         deck = d, handId = hid \<rparr>"
proof -
  have "length (createDeck rnd) = 40 + 12" by (simp add: createDeck_length)
  from last_twelve[OF this] obtain d x1 x2 x3 x4 x5 x6 x7 x8 x9 x10 x11 x12 where
    deck: "createDeck rnd = d @ [x1, x2, x3, x4, x5, x6, x7, x8, x9, x10, x11, x12]"
    and d: "length d = 40" by blast
  define base where "base = (PokerGame_new S)\<lparr> handId := hid, communityCards := [], pot := 0,
      currentBet := 40, gameState := Preflop \<rparr>"
  define blank where "blank = (\<lambda>i::nat. \<lparr> player_id = i, name = ''Player '' @ show_nat i,
      stack = S, holeCards = [], p_currentBet = 0, hasActed = False, isFolded = False,
      isAllIn = False \<rparr>)"
  have start: "(PokerGame_new S)\<lparr> handId := hid, deck := createDeck rnd, communityCards := [],
        pot := 0, currentBet := bigBlind (PokerGame_new S), gameState := Preflop,
        players := map resetPlayer (players ((PokerGame_new S)\<lparr> handId := hid,
          deck := createDeck rnd, communityCards := [], pot := 0,
          currentBet := bigBlind (PokerGame_new S), gameState := Preflop \<rparr>)) \<rparr>
      = base\<lparr> players := [blank 1, blank 2, blank 3, blank 4, blank 5, blank 6],
              deck := (d @ [x1, x2, x3, x4, x5, x6]) @ [x7, x8, x9, x10, x11, x12] \<rparr>"
    by (simp add: base_def blank_def PokerGame_new_def initializePlayers_def upt_6
          resetPlayer_def deck show_nat.simps)
  have dealt: "dealHoleCards (base\<lparr> players := [blank 1, blank 2, blank 3, blank 4, blank 5, blank 6],
              deck := (d @ [x1, x2, x3, x4, x5, x6]) @ [x7, x8, x9, x10, x11, x12] \<rparr>)
      = base\<lparr> players := [seat 1 S 0 x12 x6, seat 2 S 0 x11 x5, seat 3 S 0 x10 x4,
                    seat 4 S 0 x9 x3, seat 5 S 0 x8 x2, seat 6 S 0 x7 x1], deck := d \<rparr>"
    unfolding dealHoleCards_unfold upt_6 dealRound
    by (simp add: blank_def seat_def)
  have blinds: "postBlinds (base\<lparr> players := [seat 1 S 0 x12 x6, seat 2 S 0 x11 x5, seat 3 S 0 x10 x4,
                    seat 4 S 0 x9 x3, seat 5 S 0 x8 x2, seat 6 S 0 x7 x1], deck := d \<rparr>)
      = base\<lparr> players := [seat 1 S 0 x12 x6, seat 2 (S - 20) 20 x11 x5, seat 3 (S - 40) 40 x10 x4,
                    seat 4 S 0 x9 x3, seat 5 S 0 x8 x2, seat 6 S 0 x7 x1], deck := d, pot := 60 \<rparr>"
    by (simp add: postBlinds_def Let_def base_def PokerGame_new_def seat_def)
  have "freshHand S rnd hid =
       \<lparr> players = [seat 1 S 0 x12 x6, seat 2 (S - 20) 20 x11 x5, seat 3 (S - 40) 40 x10 x4,
                    seat 4 S 0 x9 x3, seat 5 S 0 x8 x2, seat 6 S 0 x7 x1],
         dealerPosition = 0, smallBlindPosition = 1, bigBlindPosition = 2,
         currentPlayerIndex = 3, smallBlind = 20, bigBlind = 40, pot = 60,
         communityCards = [], currentBet = 40, gameState = Preflop, stackSize = S,
         deck = d, handId = hid \<rparr>"
    unfolding freshHand_def startNewHand_def Let_def
    by (simp only: start dealt blinds) (simp add: base_def PokerGame_new_def)
  with d show ?thesis by blast
qed

section \<open>Evaluating concrete hands\<close>

lemmas eval_defs = step_def run_def fold_action_def check_def call_def bet_def raise_def allIn_def
  getCurrentPlayer_def isHandComplete_def moveToNextPlayer_def isBettingRoundComplete_def
  moveToNextBettingRound_def rotateTurn.simps seekFirstToAct.simps seatBusy_def markAllIn_def
  nextStreet_def Let_def dealCommunityCards_cases shouldDealCommunityCards_def revealOne_shape
  burn_shape pop_def seat_def

section \<open>Blind posting\<close>

text \<open>
  C7. After \<^verbatim>\<open>startNewHand()\<close> on a fresh game with \<open>stackSize = 10000\<close>, whatever the
  shuffle and the hand id: the pot is 60 (small blind 20 plus big blind 40), the
  small-blind seat has 9980 chips and the big-blind seat 9960, each of the six seats
  holds exactly two hole cards, \<open>currentBet\<close> is the big blind, and the first to act is
  the seat right after the big blind.
\<close>

theorem blinds_posted:
  "pot (freshHand 10000 rnd hid) = 60
   \<and> pot (freshHand 10000 rnd hid)
        = smallBlind (freshHand 10000 rnd hid) + bigBlind (freshHand 10000 rnd hid)
   \<and> smallBlind (freshHand 10000 rnd hid) = 20
   \<and> bigBlind (freshHand 10000 rnd hid) = 40
   \<and> stack (players (freshHand 10000 rnd hid) ! smallBlindPosition (freshHand 10000 rnd hid)) = 9980
   \<and> stack (players (freshHand 10000 rnd hid) ! bigBlindPosition (freshHand 10000 rnd hid)) = 9960
   \<and> length (players (freshHand 10000 rnd hid)) = 6
   \<and> list_all (\<lambda>p. length (holeCards p) = 2) (players (freshHand 10000 rnd hid))
   \<and> list_all (\<lambda>p. cardsDefined (holeCards p)) (players (freshHand 10000 rnd hid))
   \<and> currentBet (freshHand 10000 rnd hid) = bigBlind (freshHand 10000 rnd hid)
   \<and> currentPlayerIndex (freshHand 10000 rnd hid)
        = (bigBlindPosition (freshHand 10000 rnd hid) + 1) mod 6"
proof -
  from freshHand_explicit[of 10000 rnd hid] obtain d x1 x2 x3 x4 x5 x6 x7 x8 x9 x10 x11 x12 where
    "freshHand 10000 rnd hid =
       \<lparr> players = [seat 1 10000 0 x12 x6, seat 2 (10000 - 20) 20 x11 x5,
                    seat 3 (10000 - 40) 40 x10 x4, seat 4 10000 0 x9 x3, seat 5 10000 0 x8 x2,
                    seat 6 10000 0 x7 x1],
         dealerPosition = 0, smallBlindPosition = 1, bigBlindPosition = 2,
         currentPlayerIndex = 3, smallBlind = 20, bigBlind = 40, pot = 60,
         communityCards = [], currentBet = 40, gameState = Preflop, stackSize = 10000,
         deck = d, handId = hid \<rparr>"
    by blast
  then show ?thesis
    by (simp add: seat_def cardsDefined_def)
qed

lemma sampleHand_explicit:
  "\<exists>d x1 x2 x3 x4 x5 x6 x7 x8 x9 x10 x11 x12.
     length d = 40 \<and>
     sampleHand S =
       \<lparr> players = [seat 1 S 0 x12 x6, seat 2 (S - 20) 20 x11 x5, seat 3 (S - 40) 40 x10 x4,
                    seat 4 S 0 x9 x3, seat 5 S 0 x8 x2, seat 6 S 0 x7 x1],
         dealerPosition = 0, smallBlindPosition = 1, bigBlindPosition = 2,
         currentPlayerIndex = 3, smallBlind = 20, bigBlind = 40, pot = 60,
         communityCards = [], currentBet = 40, gameState = Preflop, stackSize = S,
         deck = d, handId = [] \<rparr>"
  unfolding sampleHand_def by (rule freshHand_explicit)

section \<open>The valid-actions query\<close>

text \<open>
  C5. \<^verbatim>\<open>getValidActions()\<close> changes nothing, and for a current actor it never offers
  check when \<open>currentBet\<close> exceeds the actor's street bet, never offers bet when
  \<open>currentBet > 0\<close>, and never offers raise when \<open>currentBet = 0\<close>. This holds in every
  state, reachable or not.
\<close>

theorem valid_actions_legal:
  "snd (getValidActions g) = g
   \<and> (\<forall>actor. getCurrentPlayer g = Some actor \<longrightarrow>
        (currentBet g > p_currentBet actor \<longrightarrow> ''check'' \<notin> set (fst (getValidActions g)))
      \<and> (currentBet g > 0 \<longrightarrow> ''bet'' \<notin> set (fst (getValidActions g)))
      \<and> (currentBet g = 0 \<longrightarrow> ''raise'' \<notin> set (fst (getValidActions g))))"
  by (auto simp: getValidActions_def Let_def split: option.splits)

theorem valid_actions_legal_witness:
  "(\<exists>actor. getCurrentPlayer (sampleHand 10000) = Some actor
       \<and> currentBet (sampleHand 10000) > p_currentBet actor)
   \<and> currentBet (sampleHand 10000) > 0
   \<and> ''check'' \<notin> set (fst (getValidActions (sampleHand 10000)))
   \<and> ''bet'' \<notin> set (fst (getValidActions (sampleHand 10000)))
   \<and> (\<exists>actor. getCurrentPlayer (run [Call, Call, Call, Call, Call, Check] (sampleHand 10000))
                  = Some actor)
   \<and> currentBet (run [Call, Call, Call, Call, Call, Check] (sampleHand 10000)) = 0
   \<and> ''raise'' \<notin> set (fst (getValidActions
                                (run [Call, Call, Call, Call, Call, Check] (sampleHand 10000))))"
proof -
  from sampleHand_explicit[of 10000] obtain d x1 x2 x3 x4 x5 x6 x7 x8 x9 x10 x11 x12 where
    ex: "sampleHand 10000 =
       \<lparr> players = [seat 1 10000 0 x12 x6, seat 2 (10000 - 20) 20 x11 x5,
                    seat 3 (10000 - 40) 40 x10 x4, seat 4 10000 0 x9 x3, seat 5 10000 0 x8 x2,
                    seat 6 10000 0 x7 x1],
         dealerPosition = 0, smallBlindPosition = 1, bigBlindPosition = 2,
         currentPlayerIndex = 3, smallBlind = 20, bigBlind = 40, pot = 60,
         communityCards = [], currentBet = 40, gameState = Preflop, stackSize = 10000,
         deck = d, handId = [] \<rparr>"
    by blast
  let ?gB = "run [Call, Call, Call, Call, Call, Check] (sampleHand 10000)"
  have a: "getCurrentPlayer (sampleHand 10000) = Some (seat 4 10000 0 x9 x3)"
    "currentBet (sampleHand 10000) = 40"
    unfolding ex by (simp_all add: eval_defs)
  have b: "\<exists>actor. getCurrentPlayer ?gB = Some actor" "currentBet ?gB = 0"
    unfolding ex by (simp_all add: eval_defs)
  from a have a': "\<exists>actor. getCurrentPlayer (sampleHand 10000) = Some actor
       \<and> currentBet (sampleHand 10000) > p_currentBet actor"
    by (simp add: seat_def)
  from valid_actions_legal[of "sampleHand 10000"] a
  have "''check'' \<notin> set (fst (getValidActions (sampleHand 10000)))"
    "''bet'' \<notin> set (fst (getValidActions (sampleHand 10000)))"
    by (simp_all add: seat_def)
  moreover from valid_actions_legal[of ?gB] b
  have "''raise'' \<notin> set (fst (getValidActions ?gB))"
    by blast
  ultimately show ?thesis using a' a(2) b by simp
qed

section \<open>Rejected actions\<close>

lemma rejected_perform: "rejected e g \<Longrightarrow> perform e g = (Some [], g)"
  by (cases e)
     (auto simp: rejected_def fold_action_def check_def call_def bet_def raise_def allIn_def
           split: option.splits)

lemma accepted_perform:
  "e \<noteq> DealCommunityCards \<Longrightarrow> \<not> rejected e g \<Longrightarrow> fst (perform e g) \<noteq> Some []"
  by (cases e)
     (auto simp: rejected_def fold_action_def check_def call_def bet_def raise_def allIn_def
           Let_def split: option.splits)

text \<open>
  C3. Atomicity of rejection: whenever an action is rejected (a check facing a larger
  bet, a bet when \<open>currentBet > 0\<close>, a raise when \<open>currentBet = 0\<close>, an all-in with an
  empty stack, or any action once the hand is complete), the whole state (pot,
  \<open>currentBet\<close>, street, community cards, deck, turn index and every field of every
  seat) is the state before the call. This holds in every state, reachable or not.
\<close>

theorem rejection_is_atomic: "rejected e g \<Longrightarrow> step e g = g"
  by (simp add: step_def rejected_perform)

theorem rejection_is_atomic_witness:
  "rejected Check (sampleHand 10000)
   \<and> step Check (sampleHand 10000) = sampleHand 10000
   \<and> rejected (Bet 100) (sampleHand 10000)
   \<and> step (Bet 100) (sampleHand 10000) = sampleHand 10000
   \<and> rejected (Raise 100) (run [Call, Call, Call, Call, Call, Check] (sampleHand 10000))
   \<and> step (Raise 100) (run [Call, Call, Call, Call, Call, Check] (sampleHand 10000))
        = run [Call, Call, Call, Call, Call, Check] (sampleHand 10000)
   \<and> rejected AllIn (run [Call, Call, Call, Call, Call] (sampleHand 40))
   \<and> step AllIn (run [Call, Call, Call, Call, Call] (sampleHand 40))
        = run [Call, Call, Call, Call, Call] (sampleHand 40)
   \<and> isHandComplete (run [Fold, Fold, Fold, Fold, Fold] (sampleHand 10000))
   \<and> rejected Call (run [Fold, Fold, Fold, Fold, Fold] (sampleHand 10000))
   \<and> step Call (run [Fold, Fold, Fold, Fold, Fold] (sampleHand 10000))
        = run [Fold, Fold, Fold, Fold, Fold] (sampleHand 10000)"
proof -
  from sampleHand_explicit[of 10000] obtain d x1 x2 x3 x4 x5 x6 x7 x8 x9 x10 x11 x12 where
    ex: "sampleHand 10000 =
       \<lparr> players = [seat 1 10000 0 x12 x6, seat 2 (10000 - 20) 20 x11 x5,
                    seat 3 (10000 - 40) 40 x10 x4, seat 4 10000 0 x9 x3, seat 5 10000 0 x8 x2,
                    seat 6 10000 0 x7 x1],
         dealerPosition = 0, smallBlindPosition = 1, bigBlindPosition = 2,
         currentPlayerIndex = 3, smallBlind = 20, bigBlind = 40, pot = 60,
         communityCards = [], currentBet = 40, gameState = Preflop, stackSize = 10000,
         deck = d, handId = [] \<rparr>"
    by blast
  from sampleHand_explicit[of 40] obtain d' y1 y2 y3 y4 y5 y6 y7 y8 y9 y10 y11 y12 where
    ex': "sampleHand 40 =
       \<lparr> players = [seat 1 40 0 y12 y6, seat 2 (40 - 20) 20 y11 y5,
                    seat 3 (40 - 40) 40 y10 y4, seat 4 40 0 y9 y3, seat 5 40 0 y8 y2,
                    seat 6 40 0 y7 y1],
         dealerPosition = 0, smallBlindPosition = 1, bigBlindPosition = 2,
         currentPlayerIndex = 3, smallBlind = 20, bigBlind = 40, pot = 60,
         communityCards = [], currentBet = 40, gameState = Preflop, stackSize = 40,
         deck = d', handId = [] \<rparr>"
    by blast
  have r1: "rejected Check (sampleHand 10000)"
    unfolding ex by (simp add: rejected_def eval_defs)
  have r2: "rejected (Bet 100) (sampleHand 10000)"
    unfolding ex by (simp add: rejected_def eval_defs)
  have r3: "rejected (Raise 100) (run [Call, Call, Call, Call, Call, Check] (sampleHand 10000))"
    unfolding ex by (simp add: rejected_def eval_defs)
  have r4: "rejected AllIn (run [Call, Call, Call, Call, Call] (sampleHand 40))"
    unfolding ex' by (simp add: rejected_def eval_defs)
  have r5: "isHandComplete (run [Fold, Fold, Fold, Fold, Fold] (sampleHand 10000))"
    "rejected Call (run [Fold, Fold, Fold, Fold, Fold] (sampleHand 10000))"
    unfolding ex by (simp_all add: rejected_def eval_defs)
  show ?thesis
    using r1 r2 r3 r4 r5 rejection_is_atomic[OF r1] rejection_is_atomic[OF r2]
      rejection_is_atomic[OF r3] rejection_is_atomic[OF r4] rejection_is_atomic[OF r5(2)]
    by simp
qed

text \<open>
  C2, as stated, fails: the engine has no failure type. At the start of a hand the first
  actor faces the big blind, so a check is illegal; \<^verbatim>\<open>check()\<close> returns the empty
  string, a value of the same type as a successful narrative, and leaves the state as
  it was: a silent no-op.
\<close>

theorem illegal_check_is_silent_noop:
  "(\<exists>actor. getCurrentPlayer (sampleHand 10000) = Some actor
       \<and> currentBet (sampleHand 10000) > p_currentBet actor)
   \<and> check (sampleHand 10000) = ([], sampleHand 10000)"
proof -
  from sampleHand_explicit[of 10000] obtain d x1 x2 x3 x4 x5 x6 x7 x8 x9 x10 x11 x12 where
    ex: "sampleHand 10000 =
       \<lparr> players = [seat 1 10000 0 x12 x6, seat 2 (10000 - 20) 20 x11 x5,
                    seat 3 (10000 - 40) 40 x10 x4, seat 4 10000 0 x9 x3, seat 5 10000 0 x8 x2,
                    seat 6 10000 0 x7 x1],
         dealerPosition = 0, smallBlindPosition = 1, bigBlindPosition = 2,
         currentPlayerIndex = 3, smallBlind = 20, bigBlind = 40, pot = 60,
         communityCards = [], currentBet = 40, gameState = Preflop, stackSize = 10000,
         deck = d, handId = [] \<rparr>"
    by blast
  show ?thesis
    unfolding ex by (simp add: eval_defs)
qed

text \<open>
  C2, amended: every illegal action (no current actor, a check facing a larger bet, a
  bet when \<open>currentBet > 0\<close>, a raise when \<open>currentBet = 0\<close>, an all-in with an empty
  stack) returns the empty string and the unchanged state, with no typed failure; an
  action that is not rejected returns a non-empty narrative.
\<close>

theorem illegal_action_returns_empty_string:
  "(rejected e g \<longrightarrow> perform e g = (Some [], g))
   \<and> (e \<noteq> DealCommunityCards \<and> \<not> rejected e g \<longrightarrow> fst (perform e g) \<noteq> Some [])"
  using rejected_perform[of e g] accepted_perform[of e g] by blast

theorem illegal_action_returns_empty_string_witness:
  "rejected (Bet 100) (sampleHand 10000)
   \<and> perform (Bet 100) (sampleHand 10000) = (Some [], sampleHand 10000)
   \<and> \<not> rejected Fold (sampleHand 10000)
   \<and> fst (perform Fold (sampleHand 10000)) \<noteq> Some []"
proof -
  from sampleHand_explicit[of 10000] obtain d x1 x2 x3 x4 x5 x6 x7 x8 x9 x10 x11 x12 where
    ex: "sampleHand 10000 =
       \<lparr> players = [seat 1 10000 0 x12 x6, seat 2 (10000 - 20) 20 x11 x5,
                    seat 3 (10000 - 40) 40 x10 x4, seat 4 10000 0 x9 x3, seat 5 10000 0 x8 x2,
                    seat 6 10000 0 x7 x1],
         dealerPosition = 0, smallBlindPosition = 1, bigBlindPosition = 2,
         currentPlayerIndex = 3, smallBlind = 20, bigBlind = 40, pot = 60,
         communityCards = [], currentBet = 40, gameState = Preflop, stackSize = 10000,
         deck = d, handId = [] \<rparr>"
    by blast
  have r: "rejected (Bet 100) (sampleHand 10000)" "\<not> rejected Fold (sampleHand 10000)"
    unfolding ex by (simp_all add: rejected_def eval_defs)
  with illegal_action_returns_empty_string[of "Bet 100" "sampleHand 10000"]
    illegal_action_returns_empty_string[of Fold "sampleHand 10000"]
  show ?thesis by simp
qed

section \<open>Capped commitment\<close>








section \<open>Actions leave the cards alone\<close>

lemma action_cards:
  "deck (snd (fold_action g)) = deck g"
  "communityCards (snd (fold_action g)) = communityCards g"
  "map holeCards (players (snd (fold_action g))) = map holeCards (players g)"
  "deck (snd (check g)) = deck g"
  "communityCards (snd (check g)) = communityCards g"
  "map holeCards (players (snd (check g))) = map holeCards (players g)"
  "deck (snd (call g)) = deck g"
  "communityCards (snd (call g)) = communityCards g"
  "map holeCards (players (snd (call g))) = map holeCards (players g)"
  "deck (snd (bet n g)) = deck g"
  "communityCards (snd (bet n g)) = communityCards g"
  "map holeCards (players (snd (bet n g))) = map holeCards (players g)"
  "deck (snd (raise n g)) = deck g"
  "communityCards (snd (raise n g)) = communityCards g"
  "map holeCards (players (snd (raise n g))) = map holeCards (players g)"
  "deck (snd (allIn g)) = deck g"
  "communityCards (snd (allIn g)) = communityCards g"
  "map holeCards (players (snd (allIn g))) = map holeCards (players g)"
  by (auto simp: fold_action_def check_def call_def bet_def raise_def allIn_def Let_def
        map_update_same split: option.splits dest!: getCurrentPlayer_SomeD)

lemma deal_keeps_step:
  assumes "deckInStep g" "allCardsDefined g"
  shows "deckInStep (snd (dealCommunityCards g)) \<and> allCardsDefined (snd (dealCommunityCards g))"
proof -
  have ne: "deck g \<noteq> []" "butlast (deck g) \<noteq> []" "butlast (butlast (deck g)) \<noteq> []"
    "butlast (butlast (butlast (deck g))) \<noteq> []"
    using assms(1) by (auto simp: deckInStep_def simp flip: length_greater_0_conv)
  show ?thesis
    using assms ne
    by (auto simp: dealCommunityCards_cases revealOne_shape burn_shape pop_def deckInStep_def
          allCardsDefined_def cardsDefined_def)
qed

lemma step_keeps_step:
  assumes "deckInStep g" "allCardsDefined g"
  shows "deckInStep (step e g) \<and> allCardsDefined (step e g)"
proof (cases e)
  case DealCommunityCards
  then show ?thesis using deal_keeps_step[OF assms] by (simp add: step_def)
qed (use assms in \<open>simp_all add: step_def split_beta deckInStep_def allCardsDefined_def action_cards\<close>)

lemma run_keeps_step:
  "deckInStep g \<Longrightarrow> allCardsDefined g \<Longrightarrow> deckInStep (run es g) \<and> allCardsDefined (run es g)"
  unfolding run_def
  by (induction es arbitrary: g) (simp_all add: step_keeps_step)

lemma freshHand_in_step: "deckInStep (freshHand S rnd hid)" "allCardsDefined (freshHand S rnd hid)"
proof -
  from freshHand_explicit[of S rnd hid] obtain d x1 x2 x3 x4 x5 x6 x7 x8 x9 x10 x11 x12 where
    "length d = 40"
    "freshHand S rnd hid =
       \<lparr> players = [seat 1 S 0 x12 x6, seat 2 (S - 20) 20 x11 x5, seat 3 (S - 40) 40 x10 x4,
                    seat 4 S 0 x9 x3, seat 5 S 0 x8 x2, seat 6 S 0 x7 x1],
         dealerPosition = 0, smallBlindPosition = 1, bigBlindPosition = 2,
         currentPlayerIndex = 3, smallBlind = 20, bigBlind = 40, pot = 60,
         communityCards = [], currentBet = 40, gameState = Preflop, stackSize = S,
         deck = d, handId = hid \<rparr>"
    by blast
  then show "deckInStep (freshHand S rnd hid)" "allCardsDefined (freshHand S rnd hid)"
    by (simp_all add: deckInStep_def allCardsDefined_def cardsDefined_def seat_def)
qed

section \<open>The deck is never exhausted\<close>

text \<open>
  C8. The shuffled deck has 52 cards. In every state reached from a fresh hand by
  actions and community-card deals, the board has 0, 3, 4 or 5 cards with 40, 36, 34 or
  32 cards left in the deck (12 hole cards, then burn and reveal once per street), so at
  most 20 cards are ever drawn, at least 32 remain, and no hole card or community card
  is an \<^verbatim>\<open>undefined\<close> popped from an empty deck.
\<close>

theorem deck_never_exhausted:
  "length (createDeck rnd) = 52
   \<and> (length (communityCards (run es (freshHand S rnd hid))),
       length (deck (run es (freshHand S rnd hid)))) \<in> set [(0, 40), (3, 36), (4, 34), (5, 32)]
   \<and> 52 - length (deck (run es (freshHand S rnd hid))) \<le> 20
   \<and> 32 \<le> length (deck (run es (freshHand S rnd hid)))
   \<and> cardsDefined (communityCards (run es (freshHand S rnd hid)))
   \<and> list_all cardsDefined (map holeCards (players (run es (freshHand S rnd hid))))"
proof -
  have "deckInStep (run es (freshHand S rnd hid)) \<and> allCardsDefined (run es (freshHand S rnd hid))"
    by (rule run_keeps_step[OF freshHand_in_step])
  then show ?thesis
    by (auto simp: deckInStep_def allCardsDefined_def createDeck_length)
qed

section \<open>Settlement\<close>

lemma takeWhile_shorter: "\<not> list_all P xs \<Longrightarrow> length (takeWhile P xs) < length xs"
  by (induction xs) auto

lemma activeIndices_first:
  assumes "\<not> list_all isFolded ps"
  shows "\<exists>rest. activeIndices ps = length (takeWhile isFolded ps) # rest"
proof -
  let ?w = "length (takeWhile isFolded ps)"
  have lt: "?w < length ps" by (rule takeWhile_shorter[OF assms])
  have live: "\<not> isFolded (ps ! ?w)" by (rule nth_length_takeWhile[OF lt])
  have before: "isFolded (ps ! i)" if "i < ?w" for i
    using that by (metis nth_mem set_takeWhileD takeWhile_nth)
  have "[0..<?w + (length ps - ?w)] = [0..<?w] @ [?w..<?w + (length ps - ?w)]"
    by (rule upt_add_eq_append) simp
  then have "[0..<length ps] = [0..<?w] @ [?w..<length ps]"
    using lt by simp
  moreover have "[?w..<length ps] = ?w # [Suc ?w..<length ps]"
    using lt by (rule upt_conv_Cons)
  ultimately have split: "[0..<length ps] = [0..<?w] @ ?w # [Suc ?w..<length ps]"
    by simp
  have "filter (\<lambda>i. \<not> isFolded (ps ! i)) [0..<?w] = []"
    using before by (simp add: filter_empty_conv)
  then have "activeIndices ps = ?w # filter (\<lambda>i. \<not> isFolded (ps ! i)) [Suc ?w..<length ps]"
    unfolding activeIndices_def by (subst split) (simp add: live)
  then show ?thesis by blast
qed

lemma getHandResult_awards:
  assumes "\<not> list_all isFolded (players g)"
  shows "\<exists>r. getHandResult g =
           Inr (r, g\<lparr> players := (players g)[length (takeWhile isFolded (players g)) :=
                          (players g ! length (takeWhile isFolded (players g)))
                            \<lparr> stack := stack (players g ! length (takeWhile isFolded (players g)))
                                        + pot g \<rparr>] \<rparr>)
         \<and> totalPot r = pot g
         \<and> actionSequence r = ''f.f.f.r300.c.f.3hKdQs.x.b100.c.Ac.x.x.Th.b80.r160.c''"
proof -
  from activeIndices_first[OF assms] obtain rest where
    "activeIndices (players g) = length (takeWhile isFolded (players g)) # rest" by blast
  then show ?thesis
    by (simp add: getHandResult_def Let_def)
qed

lemma getHandResult_actionSequence:
  "getHandResult g = Inr (r, g') \<Longrightarrow>
     actionSequence r = ''f.f.f.r300.c.f.3hKdQs.x.b100.c.Ac.x.x.Th.b80.r160.c''"
  by (auto simp: getHandResult_def Let_def split: list.splits)


lemma filter_update_length:
  "length (filter P xs) \<le> Suc (length (filter P (xs[i := y])))"
  by (induction xs arbitrary: i) (auto split: nat.splits)

lemma live_count_flags:
  fixes ps ps' :: "Player list"
  assumes "map isFolded ps' = map isFolded ps"
  shows "length (filter (\<lambda>p. \<not> isFolded p) ps') = length (filter (\<lambda>p. \<not> isFolded p) ps)"
proof -
  have "length (filter (\<lambda>p. \<not> isFolded p) qs) = length (filter Not (map isFolded qs))"
    for qs :: "Player list"
    by (simp add: filter_map comp_def)
  then show ?thesis by (simp only: assms)
qed

lemma action_flags:
  "map isFolded (players (snd (check g))) = map isFolded (players g)"
  "map isFolded (players (snd (call g))) = map isFolded (players g)"
  "map isFolded (players (snd (bet n g))) = map isFolded (players g)"
  "map isFolded (players (snd (raise n g))) = map isFolded (players g)"
  "map isFolded (players (snd (allIn g))) = map isFolded (players g)"
  by (auto simp: check_def call_def bet_def raise_def allIn_def Let_def
        map_update_same split: option.splits dest!: getCurrentPlayer_SomeD)

lemma fold_action_live:
  assumes "filter (\<lambda>p. \<not> isFolded p) (players g) \<noteq> []"
  shows "filter (\<lambda>p. \<not> isFolded p) (players (snd (fold_action g))) \<noteq> []"
proof (cases "getCurrentPlayer g")
  case None
  then show ?thesis using assms by (simp add: fold_action_def)
next
  case (Some player)
  let ?ps = "(players g)[currentPlayerIndex g := player\<lparr> isFolded := True, hasActed := True \<rparr>]"
  have "\<not> isHandComplete g"
    using Some by (simp add: getCurrentPlayer_def split: if_splits)
  then have "2 \<le> length (filter (\<lambda>p. \<not> isFolded p) (players g))"
    by (simp add: isHandComplete_def)
  with filter_update_length[of "\<lambda>p. \<not> isFolded p" "players g" "currentPlayerIndex g"
      "player\<lparr> isFolded := True, hasActed := True \<rparr>"]
  have "1 \<le> length (filter (\<lambda>p. \<not> isFolded p) ?ps)" by linarith
  moreover have "length (filter (\<lambda>p. \<not> isFolded p)
                   (players (moveToNextPlayer (g\<lparr> players := ?ps \<rparr>))))
                 = length (filter (\<lambda>p. \<not> isFolded p) ?ps)"
    by (rule live_count_flags) simp
  ultimately have "1 \<le> length (filter (\<lambda>p. \<not> isFolded p)
                   (players (moveToNextPlayer (g\<lparr> players := ?ps \<rparr>))))"
    by simp
  then have "filter (\<lambda>p. \<not> isFolded p)
                   (players (moveToNextPlayer (g\<lparr> players := ?ps \<rparr>))) \<noteq> []"
    by auto
  then show ?thesis
    using Some by (simp add: fold_action_def Let_def)
qed

lemma live_flags:
  fixes ps ps' :: "Player list"
  assumes "map isFolded ps' = map isFolded ps" "filter (\<lambda>p. \<not> isFolded p) ps \<noteq> []"
  shows "filter (\<lambda>p. \<not> isFolded p) ps' \<noteq> []"
proof -
  have "length (filter (\<lambda>p. \<not> isFolded p) ps') = length (filter (\<lambda>p. \<not> isFolded p) ps)"
    by (rule live_count_flags[OF assms(1)])
  with assms(2) show ?thesis by (metis length_0_conv)
qed

lemma step_live:
  assumes "filter (\<lambda>p. \<not> isFolded p) (players g) \<noteq> []"
  shows "filter (\<lambda>p. \<not> isFolded p) (players (step e g)) \<noteq> []"
proof (cases e)
  case Fold
  then show ?thesis using fold_action_live[OF assms] by (simp add: step_def split_beta)
next
  case Check
  then show ?thesis using live_flags[OF action_flags(1) assms] by (simp add: step_def split_beta)
next
  case Call
  then show ?thesis using live_flags[OF action_flags(2) assms] by (simp add: step_def split_beta)
next
  case (Bet n)
  then show ?thesis using live_flags[OF action_flags(3) assms] by (simp add: step_def split_beta)
next
  case (Raise n)
  then show ?thesis using live_flags[OF action_flags(4) assms] by (simp add: step_def split_beta)
next
  case AllIn
  then show ?thesis using live_flags[OF action_flags(5) assms] by (simp add: step_def split_beta)
next
  case DealCommunityCards
  then show ?thesis using assms by (simp add: step_def)
qed

lemma run_live:
  "filter (\<lambda>p. \<not> isFolded p) (players g) \<noteq> [] \<Longrightarrow>
     filter (\<lambda>p. \<not> isFolded p) (players (run es g)) \<noteq> []"
  unfolding run_def by (induction es arbitrary: g) (simp_all add: step_live)

lemma reachable_has_live_seat: "\<not> list_all isFolded (players (run es (freshHand S rnd hid)))"
proof -
  have "filter (\<lambda>p. \<not> isFolded p) (players (freshHand S rnd hid)) \<noteq> []"
  proof -
    have "length (filter (\<lambda>p. \<not> isFolded p) (players (freshHand S rnd hid)))
            = length (filter Not (map isFolded (players (freshHand S rnd hid))))"
      by (simp add: filter_map comp_def)
    then have "length (filter (\<lambda>p. \<not> isFolded p) (players (freshHand S rnd hid))) = 6"
      by (simp add: freshHand_facts)
    then show ?thesis by auto
  qed
  from run_live[OF this, of es] show ?thesis
    by (auto simp: list_all_iff filter_empty_conv)
qed



text \<open>
  C9 fails on the code: \<^verbatim>\<open>getHandResult\<close> writes a fixed sample string into
  \<open>actionSequence\<close>. Two completed hands, one with five folds and one with a call, a
  raise and five folds, report the same action sequence.
\<close>

theorem action_sequence_is_hard_coded:
  "isHandComplete (run [Fold, Fold, Fold, Fold, Fold] (sampleHand 10000))
   \<and> isHandComplete (run [Call, Raise 200, Fold, Fold, Fold, Fold, Fold] (sampleHand 10000))
   \<and> (\<exists>r g'. getHandResult (run [Fold, Fold, Fold, Fold, Fold] (sampleHand 10000)) = Inr (r, g')
         \<and> actionSequence r = ''f.f.f.r300.c.f.3hKdQs.x.b100.c.Ac.x.x.Th.b80.r160.c'')
   \<and> (\<exists>r g'. getHandResult (run [Call, Raise 200, Fold, Fold, Fold, Fold, Fold] (sampleHand 10000))
                = Inr (r, g')
         \<and> actionSequence r = ''f.f.f.r300.c.f.3hKdQs.x.b100.c.Ac.x.x.Th.b80.r160.c'')"
proof -
  from sampleHand_explicit[of 10000] obtain d x1 x2 x3 x4 x5 x6 x7 x8 x9 x10 x11 x12 where
    ex: "sampleHand 10000 =
       \<lparr> players = [seat 1 10000 0 x12 x6, seat 2 (10000 - 20) 20 x11 x5,
                    seat 3 (10000 - 40) 40 x10 x4, seat 4 10000 0 x9 x3, seat 5 10000 0 x8 x2,
                    seat 6 10000 0 x7 x1],
         dealerPosition = 0, smallBlindPosition = 1, bigBlindPosition = 2,
         currentPlayerIndex = 3, smallBlind = 20, bigBlind = 40, pot = 60,
         communityCards = [], currentBet = 40, gameState = Preflop, stackSize = 10000,
         deck = d, handId = [] \<rparr>"
    by blast
  have done1: "isHandComplete (run [Fold, Fold, Fold, Fold, Fold] (sampleHand 10000))"
    unfolding ex by (simp add: eval_defs)
  have done2: "isHandComplete (run [Call, Raise 200, Fold, Fold, Fold, Fold, Fold] (sampleHand 10000))"
    unfolding ex by (simp add: eval_defs)
  have live: "\<not> list_all isFolded (players (run es (sampleHand 10000)))" for es
    unfolding sampleHand_def by (rule reachable_has_live_seat)
  from getHandResult_awards[OF live[of "[Fold, Fold, Fold, Fold, Fold]"]]
  have r1: "\<exists>r g'. getHandResult (run [Fold, Fold, Fold, Fold, Fold] (sampleHand 10000)) = Inr (r, g')
         \<and> actionSequence r = ''f.f.f.r300.c.f.3hKdQs.x.b100.c.Ac.x.x.Th.b80.r160.c''"
    by blast
  from getHandResult_awards[OF live[of "[Call, Raise 200, Fold, Fold, Fold, Fold, Fold]"]]
  have r2: "\<exists>r g'. getHandResult (run [Call, Raise 200, Fold, Fold, Fold, Fold, Fold]
                (sampleHand 10000)) = Inr (r, g')
         \<and> actionSequence r = ''f.f.f.r300.c.f.3hKdQs.x.b100.c.Ac.x.x.Th.b80.r160.c''"
    by blast
  show ?thesis
    by (intro conjI done1 done2 r1 r2)
qed

section \<open>The all-in short-circuit\<close>

lemma allIn_committed:
  "getCurrentPlayer g = Some player \<Longrightarrow> stack player \<noteq> 0 \<Longrightarrow>
     snd (allIn g) = moveToNextPlayer (allInCommitted g)"
  by (auto simp: allIn_def allInCommitted_def Let_def dest!: getCurrentPlayer_SomeD)

lemma dealCommunityCards_showdown:
  "gameState g = Showdown \<Longrightarrow> dealCommunityCards g = (None, g)"
  by (simp add: dealCommunityCards_def)

text \<open>
  C4, as stated, fails. With four folds, the small blind all-in, the flop dealt and the
  big blind all-in, the street transition finds every un-folded seat all-in: the street
  jumps from flop to showdown with three of the five community cards on the board, and
  yet the reveal query answers false and the reveal operation deals nothing.
\<close>

theorem short_circuit_marks_no_reveal:
  "gameState (run [Fold, Fold, Fold, Fold, AllIn, DealCommunityCards] (sampleHand 10000)) = Flop
   \<and> gameState (run [Fold, Fold, Fold, Fold, AllIn, DealCommunityCards, AllIn] (sampleHand 10000))
        = Showdown
   \<and> list_all isAllIn (filter (\<lambda>p. \<not> isFolded p)
        (players (run [Fold, Fold, Fold, Fold, AllIn, DealCommunityCards, AllIn] (sampleHand 10000))))
   \<and> length (communityCards
        (run [Fold, Fold, Fold, Fold, AllIn, DealCommunityCards, AllIn] (sampleHand 10000))) = 3
   \<and> \<not> shouldDealCommunityCards
        (run [Fold, Fold, Fold, Fold, AllIn, DealCommunityCards, AllIn] (sampleHand 10000))
   \<and> fst (dealCommunityCards
        (run [Fold, Fold, Fold, Fold, AllIn, DealCommunityCards, AllIn] (sampleHand 10000))) = None"
proof -
  from sampleHand_explicit[of 10000] obtain d x1 x2 x3 x4 x5 x6 x7 x8 x9 x10 x11 x12 where
    d: "length d = 40" and
    ex: "sampleHand 10000 =
       \<lparr> players = [seat 1 10000 0 x12 x6, seat 2 (10000 - 20) 20 x11 x5,
                    seat 3 (10000 - 40) 40 x10 x4, seat 4 10000 0 x9 x3, seat 5 10000 0 x8 x2,
                    seat 6 10000 0 x7 x1],
         dealerPosition = 0, smallBlindPosition = 1, bigBlindPosition = 2,
         currentPlayerIndex = 3, smallBlind = 20, bigBlind = 40, pot = 60,
         communityCards = [], currentBet = 40, gameState = Preflop, stackSize = 10000,
         deck = d, handId = [] \<rparr>"
    by blast
  let ?g = "run [Fold, Fold, Fold, Fold, AllIn, DealCommunityCards, AllIn] (sampleHand 10000)"
  have flop: "gameState (run [Fold, Fold, Fold, Fold, AllIn, DealCommunityCards]
                 (sampleHand 10000)) = Flop"
    unfolding ex by (simp add: eval_defs)
  have final: "gameState ?g = Showdown"
    "list_all isAllIn (filter (\<lambda>p. \<not> isFolded p) (players ?g))"
    "length (communityCards ?g) = 3"
    "\<not> shouldDealCommunityCards ?g"
    unfolding ex by (simp_all add: eval_defs)
  have "fst (dealCommunityCards ?g) = None"
    by (simp add: dealCommunityCards_showdown[OF final(1)])
  with flop final show ?thesis by simp
qed

text \<open>
  C4, amended: if at a street transition every un-folded seat is all-in, or at most one
  seat is un-folded, the street becomes showdown and no further betting is possible (no
  current actor, no valid action); the board and the deck are left as they were, and
  the engine does not mark the remaining community cards for reveal: the reveal query
  answers false and the reveal operation deals nothing.
\<close>

theorem all_in_short_circuit:
  assumes "shortCircuit g"
  shows "gameState (moveToNextBettingRound g) = Showdown
         \<and> isHandComplete (moveToNextBettingRound g)
         \<and> getCurrentPlayer (moveToNextBettingRound g) = None
         \<and> fst (getValidActions (moveToNextBettingRound g)) = []
         \<and> communityCards (moveToNextBettingRound g) = communityCards g
         \<and> deck (moveToNextBettingRound g) = deck g
         \<and> \<not> shouldDealCommunityCards (moveToNextBettingRound g)
         \<and> dealCommunityCards (moveToNextBettingRound g) = (None, moveToNextBettingRound g)"
proof -
  let ?clear = "\<lambda>p::Player. p\<lparr> hasActed := False, p_currentBet := 0 \<rparr>"
  have same: "filter (\<lambda>p. \<not> isFolded p) (map ?clear (players g))
                = map ?clear (filter (\<lambda>p. \<not> isFolded p) (players g))"
    by (simp add: filter_map comp_def)
  have "list_all isAllIn (filter (\<lambda>p. \<not> isFolded p) (map ?clear (players g)))
        \<or> length (filter (\<lambda>p. \<not> isFolded p) (map ?clear (players g))) \<le> 1"
    using assms unfolding same shortCircuit_def Let_def
    by (simp add: list.pred_map comp_def)
  then have eq: "moveToNextBettingRound g
      = g\<lparr> players := map ?clear (players g), currentBet := 0,
           gameState := Showdown \<rparr>"
    unfolding moveToNextBettingRound_def Let_def by simp
  show ?thesis
    unfolding eq
    by (simp add: isHandComplete_def getCurrentPlayer_def getValidActions_def
          shouldDealCommunityCards_def dealCommunityCards_showdown)
qed

theorem all_in_short_circuit_witness:
  "snd (allIn (run [Fold, Fold, Fold, Fold, AllIn, DealCommunityCards] (sampleHand 10000)))
     = moveToNextBettingRound beforeShowdown
   \<and> gameState beforeShowdown = Flop
   \<and> length (communityCards beforeShowdown) = 3
   \<and> length (filter (\<lambda>p. \<not> isFolded p) (players beforeShowdown)) = 2
   \<and> list_all isAllIn (filter (\<lambda>p. \<not> isFolded p) (players beforeShowdown))
   \<and> shortCircuit beforeShowdown
   \<and> gameState (moveToNextBettingRound beforeShowdown) = Showdown
   \<and> getCurrentPlayer (moveToNextBettingRound beforeShowdown) = None
   \<and> length (communityCards (moveToNextBettingRound beforeShowdown)) = 3
   \<and> \<not> shouldDealCommunityCards (moveToNextBettingRound beforeShowdown)
   \<and> dealCommunityCards (moveToNextBettingRound beforeShowdown)
        = (None, moveToNextBettingRound beforeShowdown)"
proof -
  from sampleHand_explicit[of 10000] obtain d x1 x2 x3 x4 x5 x6 x7 x8 x9 x10 x11 x12 where
    ex: "sampleHand 10000 =
       \<lparr> players = [seat 1 10000 0 x12 x6, seat 2 (10000 - 20) 20 x11 x5,
                    seat 3 (10000 - 40) 40 x10 x4, seat 4 10000 0 x9 x3, seat 5 10000 0 x8 x2,
                    seat 6 10000 0 x7 x1],
         dealerPosition = 0, smallBlindPosition = 1, bigBlindPosition = 2,
         currentPlayerIndex = 3, smallBlind = 20, bigBlind = 40, pot = 60,
         communityCards = [], currentBet = 40, gameState = Preflop, stackSize = 10000,
         deck = d, handId = [] \<rparr>"
    by blast
  let ?g = "run [Fold, Fold, Fold, Fold, AllIn, DealCommunityCards] (sampleHand 10000)"
  obtain player where actor: "getCurrentPlayer ?g = Some player" "stack player \<noteq> 0"
    unfolding ex by (simp add: eval_defs)
  have pre: "gameState beforeShowdown = Flop"
    "length (communityCards beforeShowdown) = 3"
    "length (filter (\<lambda>p. \<not> isFolded p) (players beforeShowdown)) = 2"
    "list_all isAllIn (filter (\<lambda>p. \<not> isFolded p) (players beforeShowdown))"
    "shortCircuit beforeShowdown"
    "\<not> isHandComplete beforeShowdown"
    "isBettingRoundComplete beforeShowdown"
    unfolding beforeShowdown_def allInCommitted_def ex
    by (simp_all add: eval_defs shortCircuit_def)
  have "snd (allIn ?g) = moveToNextPlayer beforeShowdown"
    unfolding beforeShowdown_def by (rule allIn_committed[OF actor])
  also have "\<dots> = moveToNextBettingRound beforeShowdown"
    using pre(6,7) by (simp add: moveToNextPlayer_def)
  finally have path: "snd (allIn ?g) = moveToNextBettingRound beforeShowdown" .
  from all_in_short_circuit[OF pre(5)] pre(1-5) path show ?thesis by simp
qed

section \<open>Six seats, always\<close>

lemma action_seats:
  "length (players (snd (fold_action g))) = length (players g)"
  "length (players (snd (check g))) = length (players g)"
  "length (players (snd (call g))) = length (players g)"
  "length (players (snd (bet n g))) = length (players g)"
  "length (players (snd (raise n g))) = length (players g)"
  "length (players (snd (allIn g))) = length (players g)"
  by (auto simp: fold_action_def check_def call_def bet_def raise_def allIn_def Let_def
        split: option.splits)

lemma action_index:
  assumes "currentPlayerIndex g < 6"
  shows "currentPlayerIndex (snd (fold_action g)) < 6"
    "currentPlayerIndex (snd (check g)) < 6"
    "currentPlayerIndex (snd (call g)) < 6"
    "currentPlayerIndex (snd (bet n g)) < 6"
    "currentPlayerIndex (snd (raise n g)) < 6"
    "currentPlayerIndex (snd (allIn g)) < 6"
  using assms
  by (auto simp: fold_action_def check_def call_def bet_def raise_def allIn_def Let_def
        split: option.splits intro!: moveToNextPlayer_index)

lemma step_six_seats:
  assumes "length (players g) = 6 \<and> currentPlayerIndex g < 6"
  shows "length (players (step e g)) = 6 \<and> currentPlayerIndex (step e g) < 6"
  using assms
  by (cases e) (simp_all add: step_def split_beta action_seats action_index)

lemma run_six_seats:
  "length (players g) = 6 \<and> currentPlayerIndex g < 6 \<Longrightarrow>
     length (players (run es g)) = 6 \<and> currentPlayerIndex (run es g) < 6"
  unfolding run_def
proof (induction es arbitrary: g)
  case Nil
  then show ?case by simp
next
  case (Cons e es)
  from Cons.IH[OF step_six_seats[OF Cons.prems]] show ?case by simp
qed

lemma reachable_six_seats:
  "length (players (run es (freshHand S rnd hid))) = 6
   \<and> currentPlayerIndex (run es (freshHand S rnd hid)) < 6"
proof (rule run_six_seats)
  have "length (players (freshHand S rnd hid))
          = length (map stack (players (freshHand S rnd hid)))"
    by simp
  also have "\<dots> = 6"
    by (simp only: freshHand_facts) simp
  finally have "length (players (freshHand S rnd hid)) = 6" .
  moreover have "currentPlayerIndex (freshHand S rnd hid) < 6"
    by (simp add: freshHand_facts)
  ultimately show "length (players (freshHand S rnd hid)) = 6
             \<and> currentPlayerIndex (freshHand S rnd hid) < 6"
    by (rule conjI)
qed

section \<open>Chip conservation and rounding\<close>

lemma toDouble_exact: "exact x \<Longrightarrow> toDouble x = x"
  by (simp add: toDouble_def exact_def)

lemma perform_dbl_exact:
  "list_all exact (computed e g) \<Longrightarrow> perform_dbl e g = perform e g"
  by (cases e)
     (auto simp: computed_def call_dbl_def call_def bet_dbl_def bet_def raise_dbl_def raise_def
        allIn_dbl_def allIn_def Let_def toDouble_exact split: option.splits)

lemma step_dbl_exact: "list_all exact (computed e g) \<Longrightarrow> step_dbl e g = step e g"
  by (simp add: step_dbl_def step_def perform_dbl_exact)

lemma run_dbl_exact: "exactRun es g \<Longrightarrow> run_dbl es g = run es g"
proof (induction es arbitrary: g)
  case Nil
  then show ?case by (simp add: run_dbl_def run_def)
next
  case (Cons e es)
  from Cons.prems have e: "list_all exact (computed e g)" and es: "exactRun es (step_dbl e g)"
    by simp_all
  from Cons.IH[OF es] show ?case
    by (simp add: run_dbl_def run_def step_dbl_exact[OF e])
qed

lemma toDouble_sixty: "toDouble 60 = 60"
  by (simp add: toDouble_def)

lemma freshHand_dbl_explicit:
  "\<exists>d x1 x2 x3 x4 x5 x6 x7 x8 x9 x10 x11 x12.
     length d = 40 \<and>
     freshHand_dbl S rnd hid =
       \<lparr> players = [seat 1 S 0 x12 x6, seat 2 (toDouble (S - 20)) 20 x11 x5,
                    seat 3 (toDouble (S - 40)) 40 x10 x4,
                    seat 4 S 0 x9 x3, seat 5 S 0 x8 x2, seat 6 S 0 x7 x1],
         dealerPosition = 0, smallBlindPosition = 1, bigBlindPosition = 2,
         currentPlayerIndex = 3, smallBlind = 20, bigBlind = 40, pot = 60,
         communityCards = [], currentBet = 40, gameState = Preflop, stackSize = S,
         deck = d, handId = hid \<rparr>"
proof -
  have "length (createDeck rnd) = 40 + 12" by (simp add: createDeck_length)
  from last_twelve[OF this] obtain d x1 x2 x3 x4 x5 x6 x7 x8 x9 x10 x11 x12 where
    deck: "createDeck rnd = d @ [x1, x2, x3, x4, x5, x6, x7, x8, x9, x10, x11, x12]"
    and d: "length d = 40" by blast
  define base where "base = (PokerGame_new S)\<lparr> handId := hid, communityCards := [], pot := 0,
      currentBet := 40, gameState := Preflop \<rparr>"
  define blank where "blank = (\<lambda>i::nat. \<lparr> player_id = i, name = ''Player '' @ show_nat i,
      stack = S, holeCards = [], p_currentBet = 0, hasActed = False, isFolded = False,
      isAllIn = False \<rparr>)"
  have start: "(PokerGame_new S)\<lparr> handId := hid, deck := createDeck rnd, communityCards := [],
        pot := 0, currentBet := bigBlind (PokerGame_new S), gameState := Preflop,
        players := map resetPlayer (players ((PokerGame_new S)\<lparr> handId := hid,
          deck := createDeck rnd, communityCards := [], pot := 0,
          currentBet := bigBlind (PokerGame_new S), gameState := Preflop \<rparr>)) \<rparr>
      = base\<lparr> players := [blank 1, blank 2, blank 3, blank 4, blank 5, blank 6],
              deck := (d @ [x1, x2, x3, x4, x5, x6]) @ [x7, x8, x9, x10, x11, x12] \<rparr>"
    by (simp add: base_def blank_def PokerGame_new_def initializePlayers_def upt_6
          resetPlayer_def deck show_nat.simps)
  have dealt: "dealHoleCards (base\<lparr> players := [blank 1, blank 2, blank 3, blank 4, blank 5, blank 6],
              deck := (d @ [x1, x2, x3, x4, x5, x6]) @ [x7, x8, x9, x10, x11, x12] \<rparr>)
      = base\<lparr> players := [seat 1 S 0 x12 x6, seat 2 S 0 x11 x5, seat 3 S 0 x10 x4,
                    seat 4 S 0 x9 x3, seat 5 S 0 x8 x2, seat 6 S 0 x7 x1], deck := d \<rparr>"
    unfolding dealHoleCards_unfold upt_6 dealRound
    by (simp add: blank_def seat_def)
  have blinds: "postBlinds_dbl (base\<lparr> players := [seat 1 S 0 x12 x6, seat 2 S 0 x11 x5,
                    seat 3 S 0 x10 x4, seat 4 S 0 x9 x3, seat 5 S 0 x8 x2, seat 6 S 0 x7 x1],
                    deck := d \<rparr>)
      = base\<lparr> players := [seat 1 S 0 x12 x6, seat 2 (toDouble (S - 20)) 20 x11 x5,
                    seat 3 (toDouble (S - 40)) 40 x10 x4,
                    seat 4 S 0 x9 x3, seat 5 S 0 x8 x2, seat 6 S 0 x7 x1], deck := d, pot := 60 \<rparr>"
    by (simp add: postBlinds_dbl_def Let_def base_def PokerGame_new_def seat_def toDouble_sixty)
  have "freshHand_dbl S rnd hid =
       \<lparr> players = [seat 1 S 0 x12 x6, seat 2 (toDouble (S - 20)) 20 x11 x5,
                    seat 3 (toDouble (S - 40)) 40 x10 x4,
                    seat 4 S 0 x9 x3, seat 5 S 0 x8 x2, seat 6 S 0 x7 x1],
         dealerPosition = 0, smallBlindPosition = 1, bigBlindPosition = 2,
         currentPlayerIndex = 3, smallBlind = 20, bigBlind = 40, pot = 60,
         communityCards = [], currentBet = 40, gameState = Preflop, stackSize = S,
         deck = d, handId = hid \<rparr>"
    unfolding freshHand_dbl_def startNewHand_dbl_def Let_def
    by (simp only: start dealt blinds) (simp add: base_def PokerGame_new_def)
  with d show ?thesis by blast
qed

lemma postBlinds_dbl_exact:
  assumes "smallBlindPosition g \<noteq> bigBlindPosition g"
    and "exact (stack (players g ! smallBlindPosition g) - smallBlind g)"
    and "exact (stack (players g ! bigBlindPosition g) - bigBlind g)"
    and "exact (smallBlind g + bigBlind g)"
  shows "postBlinds_dbl g = postBlinds g"
  using assms by (simp add: postBlinds_dbl_def postBlinds_def Let_def toDouble_exact)

lemma freshHand_dbl_exact:
  assumes "list_all exact (computedAtStart S)"
  shows "freshHand_dbl S rnd hid = freshHand S rnd hid"
proof -
  define g2 where "g2 = (PokerGame_new S)\<lparr> handId := hid, deck := createDeck rnd,
      communityCards := [], pot := 0, currentBet := bigBlind (PokerGame_new S),
      gameState := Preflop, players := map resetPlayer (players (PokerGame_new S)) \<rparr>"
  have init: "map stack (players g2) = [S, S, S, S, S, S]"
    by (simp only: g2_def PokerGame.simps PokerGame_new_def initializePlayers_facts)
  from dealHoleCards_shape[of g2] obtain ps d where
    g3: "dealHoleCards g2 = g2\<lparr> players := ps, deck := d \<rparr>"
    and ps: "length ps = length (players g2)" "map stack ps = map stack (players g2)"
    unfolding dealtShape_def by blast
  have len: "length ps = 6"
    using ps(1) by (simp add: g2_def PokerGame_new_def initializePlayers_def)
  have "stack (ps ! 1) = map stack ps ! 1" "stack (ps ! 2) = map stack ps ! 2"
    using len by simp_all
  then have st: "stack (ps ! 1) = S" "stack (ps ! 2) = S"
    by (simp_all add: ps(2) init)
  have "postBlinds_dbl (dealHoleCards g2) = postBlinds (dealHoleCards g2)"
    using assms st unfolding g3
    by (intro postBlinds_dbl_exact)
       (simp_all add: g2_def PokerGame_new_def computedAtStart_def)
  then show ?thesis
    by (simp add: freshHand_dbl_def freshHand_def startNewHand_dbl_def startNewHand_def Let_def
          g2_def)
qed

lemmas eval_dbl_defs = step_dbl_def call_dbl_def bet_dbl_def raise_dbl_def allIn_dbl_def
  computed_def exact_def toDouble_exact

text \<open>
  C1, as stated, fails: the engine's numbers are doubles. With starting stack
  \<open>10^17\<close> the blinds are rounded away in part: \<open>10^17 - 20\<close> becomes \<open>10^17 - 16\<close> and
  \<open>10^17 - 40\<close> becomes \<open>10^17 - 32\<close>, while the pot holds the full 60, so right after
  \<^verbatim>\<open>startNewHand\<close> the pot plus the stacks is \<open>6 * 10^17 + 12\<close>.
\<close>

theorem rounding_breaks_conservation:
  "map stack (players (run_dbl [] (freshHand_dbl 100000000000000000 (\<lambda>i. 0) [])))
     = [100000000000000000, 99999999999999984, 99999999999999968,
        100000000000000000, 100000000000000000, 100000000000000000]
   \<and> pot (run_dbl [] (freshHand_dbl 100000000000000000 (\<lambda>i. 0) [])) = 60
   \<and> pot (run_dbl [] (freshHand_dbl 100000000000000000 (\<lambda>i. 0) []))
        + sum_list (map stack (players (run_dbl [] (freshHand_dbl 100000000000000000 (\<lambda>i. 0) []))))
       = 600000000000000012
   \<and> pot (run_dbl [] (freshHand_dbl 100000000000000000 (\<lambda>i. 0) []))
        + sum_list (map stack (players (run_dbl [] (freshHand_dbl 100000000000000000 (\<lambda>i. 0) []))))
       \<noteq> 6 * 100000000000000000"
proof -
  have r: "toDouble (100000000000000000 - 20) = 99999999999999984"
    "toDouble (100000000000000000 - 40) = 99999999999999968"
    by (simp_all add: toDouble_def bitlen.simps)
  from freshHand_dbl_explicit[of 100000000000000000 "\<lambda>i. 0" "[]"]
  obtain d x1 x2 x3 x4 x5 x6 x7 x8 x9 x10 x11 x12 where
    "freshHand_dbl 100000000000000000 (\<lambda>i. 0) [] =
       \<lparr> players = [seat 1 100000000000000000 0 x12 x6,
                    seat 2 (toDouble (100000000000000000 - 20)) 20 x11 x5,
                    seat 3 (toDouble (100000000000000000 - 40)) 40 x10 x4,
                    seat 4 100000000000000000 0 x9 x3, seat 5 100000000000000000 0 x8 x2,
                    seat 6 100000000000000000 0 x7 x1],
         dealerPosition = 0, smallBlindPosition = 1, bigBlindPosition = 2,
         currentPlayerIndex = 3, smallBlind = 20, bigBlind = 40, pot = 60,
         communityCards = [], currentBet = 40, gameState = Preflop,
         stackSize = 100000000000000000, deck = d, handId = [] \<rparr>"
    by blast
  then show ?thesis
    unfolding r by (simp add: run_dbl_def seat_def)
qed

text \<open>
  C1, amended. Chip conservation holds as long as no number is rounded: if the starting
  stack and the stacks after the blinds are integers of magnitude at most \<open>2^53\<close>, and
  so is every number the actions of the run compute (the requested amount, the call
  amount, the raise total, the new stack, the new street bet, the new pot), then in the
  state reached from the fresh hand the pot plus the six stacks is \<open>6 * S\<close>.
\<close>

theorem chip_conservation:
  assumes "list_all exact (computedAtStart S)"
    and "exactRun es (freshHand_dbl S rnd hid)"
  shows "pot (run_dbl es (freshHand_dbl S rnd hid))
           + sum_list (map stack (players (run_dbl es (freshHand_dbl S rnd hid)))) = 6 * S"
proof -
  have "run_dbl es (freshHand_dbl S rnd hid) = run es (freshHand S rnd hid)"
    using run_dbl_exact[OF assms(2)] by (simp add: freshHand_dbl_exact[OF assms(1)])
  then show ?thesis
    using totalChips_run[of es "freshHand S rnd hid"] totalChips_freshHand[of S rnd hid]
    by (simp add: totalChips_def)
qed

theorem chip_conservation_witness:
  "list_all exact (computedAtStart 1000000000000000)
   \<and> exactRun [Call, Raise 500, AllIn, Fold, Fold, Fold, Call, Call, DealCommunityCards]
        (freshHand_dbl 1000000000000000 (\<lambda>i. 0) [])
   \<and> pot (run_dbl [Call, Raise 500, AllIn, Fold, Fold, Fold, Call, Call, DealCommunityCards]
             (freshHand_dbl 1000000000000000 (\<lambda>i. 0) []))
        + sum_list (map stack (players
            (run_dbl [Call, Raise 500, AllIn, Fold, Fold, Fold, Call, Call, DealCommunityCards]
               (freshHand_dbl 1000000000000000 (\<lambda>i. 0) []))))
       = 6 * 1000000000000000"
proof -
  have start: "list_all exact (computedAtStart 1000000000000000)"
    by (simp add: computedAtStart_def PokerGame_new_def exact_def)
  from freshHand_dbl_explicit[of 1000000000000000 "\<lambda>i. 0" "[]"]
  obtain d x1 x2 x3 x4 x5 x6 x7 x8 x9 x10 x11 x12 where
    ex: "freshHand_dbl 1000000000000000 (\<lambda>i. 0) [] =
       \<lparr> players = [seat 1 1000000000000000 0 x12 x6,
                    seat 2 (toDouble (1000000000000000 - 20)) 20 x11 x5,
                    seat 3 (toDouble (1000000000000000 - 40)) 40 x10 x4,
                    seat 4 1000000000000000 0 x9 x3, seat 5 1000000000000000 0 x8 x2,
                    seat 6 1000000000000000 0 x7 x1],
         dealerPosition = 0, smallBlindPosition = 1, bigBlindPosition = 2,
         currentPlayerIndex = 3, smallBlind = 20, bigBlind = 40, pot = 60,
         communityCards = [], currentBet = 40, gameState = Preflop,
         stackSize = 1000000000000000, deck = d, handId = [] \<rparr>"
    by blast
  have run: "exactRun [Call, Raise 500, AllIn, Fold, Fold, Fold, Call, Call, DealCommunityCards]
        (freshHand_dbl 1000000000000000 (\<lambda>i. 0) [])"
    unfolding ex by (simp add: eval_defs eval_dbl_defs)
  from chip_conservation[OF start run] start run show ?thesis by simp
qed

end
